theory Spec2Isabelle
  imports Main "HOL-Library.Word"
begin

section \<open>The tree of \<open>serialize.ts\<close>\<close>

text \<open>
  \<open>serialize.ts\<close> declares the values it walks over:
  \<^verbatim>\<open>type AnyAstNodeValue = AnyAstNode | null | readonly AnyAstNodeValue[]\<close> and
  \<^verbatim>\<open>interface AnyAstNode { kind: string; value: string | readonly AnyAstNodeValue[] }\<close>.
  \<open>Null\<close> is the missing value (\<open>null\<close> or \<open>undefined\<close>: the code only tests
  truthiness or \<open>== null\<close>, which do not tell them apart), \<open>Arr\<close> a bare array,
  \<open>Leaf kind s\<close> a node whose value is the string \<open>s\<close> and \<open>Node kind vs\<close> a node
  whose value is the array \<open>vs\<close>.
\<close>

datatype ast =
    Null
  | Arr "ast list"
  | Leaf string string
  | Node string "ast list"

subsection \<open>serialize\<close>

text \<open>
  The work stack is a list whose head is the top. Each for statement of the form
  \<^verbatim>\<open>for (i = current.length - 1; i >= 0; i -= 1) stack.push(current[i])\<close> pushes
  the last element first, so that the first element ends on top.
\<close>

definition push_reversed :: "ast list \<Rightarrow> ast list \<Rightarrow> ast list" where
  "push_reversed current stack = foldr (\<lambda>v st. v # st) current stack"

function serialize_loop :: "ast list \<Rightarrow> string \<Rightarrow> string" where
  "serialize_loop [] out = out"
| "serialize_loop (Null # stack) out = serialize_loop stack out"
| "serialize_loop (Arr current # stack) out =
     serialize_loop (push_reversed current stack) out"
| "serialize_loop (Leaf kind v # stack) out = serialize_loop stack (out @ v)"
| "serialize_loop (Node kind v # stack) out =
     serialize_loop (push_reversed v stack) out"
  by pat_completeness auto

termination
proof (relation "measure (\<lambda>(stack, out). sum_list (map (\<lambda>v. Suc (size v)) stack))")
  show "wf (measure (\<lambda>(stack, out). sum_list (map (\<lambda>v. Suc (size v)) stack)))"
    by simp
next
  fix stack :: "ast list" and out :: string
  show "((stack, out), Null # stack, out)
        \<in> measure (\<lambda>(stack, out). sum_list (map (\<lambda>v. Suc (size v)) stack))"
    by simp
next
  fix current stack :: "ast list" and out :: string
  have push_reversed_append: "push_reversed current stack = current @ stack"
    by (induction current) (simp_all add: push_reversed_def)
  have "sum_list (map (\<lambda>v. Suc (size v)) current) = size_list size current"
    by (induction current) simp_all
  then show "((push_reversed current stack, out), Arr current # stack, out)
        \<in> measure (\<lambda>(stack, out). sum_list (map (\<lambda>v. Suc (size v)) stack))"
    by (simp add: push_reversed_append)
next
  fix kind v :: string and stack :: "ast list" and out :: string
  show "((stack, out @ v), Leaf kind v # stack, out)
        \<in> measure (\<lambda>(stack, out). sum_list (map (\<lambda>v. Suc (size v)) stack))"
    by simp
next
  fix kind :: string and v stack :: "ast list" and out :: string
  have push_reversed_append: "push_reversed v stack = v @ stack"
    by (induction v) (simp_all add: push_reversed_def)
  have "sum_list (map (\<lambda>v. Suc (size v)) v) = size_list size v"
    by (induction v) simp_all
  then show "((push_reversed v stack, out), Node kind v # stack, out)
        \<in> measure (\<lambda>(stack, out). sum_list (map (\<lambda>v. Suc (size v)) stack))"
    by (simp add: push_reversed_append)
qed

definition serialize :: "ast \<Rightarrow> string" where
  "serialize node = serialize_loop [node] []"

subsection \<open>The contract of the serializer, in the words of the specification\<close>

text \<open>
  The concatenation, from left to right, of all the leaf string tokens of the tree, by
  plain recursion over it: a missing value contributes nothing and nothing is put between
  two tokens.
\<close>

fun leaf_tokens :: "ast \<Rightarrow> string" where
  "leaf_tokens Null = []"
| "leaf_tokens (Arr vs) = concat (map leaf_tokens vs)"
| "leaf_tokens (Leaf kind v) = v"
| "leaf_tokens (Node kind vs) = concat (map leaf_tokens vs)"

section \<open>Scalars\<close>

text \<open>
  A JavaScript number, as far as the builder looks at it: it tests its truthiness and
  prints it with \<open>toString\<close>. \<open>Finite i\<close> is the integer \<open>i\<close>, a signed word of 54 bits:
  the integers from \<open>-2^53\<close> to \<open>2^53 - 1\<close>, each of which is a JavaScript number and
  is printed in plain decimal (both zeros are \<open>Finite 0\<close>). No arithmetic is done on it.
  Larger numbers and numbers with a fractional part are not covered.
\<close>

datatype jsnumber = Finite "54 word" | NaN | PosInfinity | NegInfinity

definition digit_char :: "nat \<Rightarrow> char" where
  "digit_char d = ''0123456789'' ! d"

function decimal :: "nat \<Rightarrow> string" where
  "decimal n = (if n < 10 then [digit_char n] else decimal (n div 10) @ [digit_char (n mod 10)])"
  by pat_completeness auto
termination
  by (relation "measure (\<lambda>n. n)") auto

declare decimal.simps [simp del]

fun number_toString :: "jsnumber \<Rightarrow> string" where
  "number_toString (Finite i) =
     (if sint i < 0 then ''-'' @ decimal (nat (- sint i)) else decimal (nat (sint i)))"
| "number_toString NaN = ''NaN''"
| "number_toString PosInfinity = ''Infinity''"
| "number_toString NegInfinity = ''-Infinity''"

text \<open>The \<^verbatim>\<open>number | string\<close> of the signatures, and \<open>value.toString()\<close> on it.\<close>

datatype scalar = Num jsnumber | Str string

fun toString :: "scalar \<Rightarrow> string" where
  "toString (Num n) = number_toString n"
| "toString (Str s) = s"

section \<open>create.ts: the node constructors\<close>

definition create_min :: "ast \<Rightarrow> ast list \<Rightarrow> ast" where
  "create_min first rest =
     Node ''min''
       [Leaf ''function'' ''min'',
        Leaf ''token'' ''('',
        Arr (first # map (\<lambda>item. Arr [Leaf ''token'' '','', item]) rest),
        Leaf ''token'' '')'']"

definition create_max :: "ast \<Rightarrow> ast list \<Rightarrow> ast" where
  "create_max first rest =
     Node ''max''
       [Leaf ''function'' ''max'',
        Leaf ''token'' ''('',
        Arr (first # map (\<lambda>item. Arr [Leaf ''token'' '','', item]) rest),
        Leaf ''token'' '')'']"

definition create_clamp :: "ast \<Rightarrow> ast \<Rightarrow> ast \<Rightarrow> ast" where
  "create_clamp mn preferred mx =
     Node ''clamp''
       [Leaf ''function'' ''clamp'',
        Leaf ''token'' ''('',
        mn,
        Leaf ''token'' '','',
        preferred,
        Leaf ''token'' '','',
        mx,
        Leaf ''token'' '')'']"

definition create_calc :: "ast \<Rightarrow> ast" where
  "create_calc sum_node =
     Node ''calc'' [Leaf ''function'' ''calc'', Leaf ''token'' ''('', sum_node, Leaf ''token'' '')'']"

definition create_exp :: "ast \<Rightarrow> ast" where
  "create_exp sum_node =
     Node ''exp'' [Leaf ''function'' ''exp'', Leaf ''token'' ''('', sum_node, Leaf ''token'' '')'']"

definition create_pow :: "ast \<Rightarrow> ast \<Rightarrow> ast" where
  "create_pow base exponent =
     Node ''pow''
       [Leaf ''function'' ''pow'',
        Leaf ''token'' ''('',
        base,
        Leaf ''token'' '','',
        exponent,
        Leaf ''token'' '')'']"

text \<open>
  \<^verbatim>\<open>type RoundStrategy = "nearest" | "up" | "down" | "to-zero"\<close>; the strategy
  argument is a strategy or \<open>null\<close>. The optional \<open>interval\<close> is a node, or \<open>Null\<close> when
  it is left out; \<^verbatim>\<open>interval ? ... : null\<close> tests its truthiness, and every node and
  array is truthy.
\<close>

datatype roundStrategy = Nearest | Up | Down | To_zero

fun roundStrategy_string :: "roundStrategy \<Rightarrow> string" where
  "roundStrategy_string Nearest = ''nearest''"
| "roundStrategy_string Up = ''up''"
| "roundStrategy_string Down = ''down''"
| "roundStrategy_string To_zero = ''to-zero''"

definition create_round :: "roundStrategy option \<Rightarrow> ast \<Rightarrow> ast \<Rightarrow> ast" where
  "create_round strategy v interval =
     Node ''round''
       [Leaf ''function'' ''round'',
        Leaf ''token'' ''('',
        (case strategy of
           Some s \<Rightarrow> Arr [Leaf ''rounding-strategy'' (roundStrategy_string s), Leaf ''token'' '','']
         | None \<Rightarrow> Null),
        v,
        (if interval \<noteq> Null then Arr [Leaf ''token'' '','', interval] else Null),
        Leaf ''token'' '')'']"

text \<open>The operators \<^verbatim>\<open>"+" | "-"\<close> of a sum.\<close>

datatype sign = Plus | Minus

fun sign_string :: "sign \<Rightarrow> string" where
  "sign_string Plus = ''+''"
| "sign_string Minus = ''-''"

definition clacSum :: "ast \<Rightarrow> (sign \<times> ast) list \<Rightarrow> ast" where
  "clacSum first products =
     (if length products = 0 then first
      else Node ''calc-sum''
        [first,
         Arr (map (\<lambda>(operator, product).
                Arr [Leaf ''token'' ('' '' @ sign_string operator @ '' ''), product]) products)])"

text \<open>
  The operator of a product is the string \<^verbatim>\<open>"*"\<close> or \<^verbatim>\<open>"/"\<close>; it is kept as a
  string because \<open>multiplyOrDivide\<close> copies it from the token of a node it is given.
\<close>

definition calcProduct :: "ast \<Rightarrow> (string \<times> ast) list \<Rightarrow> ast" where
  "calcProduct first values =
     (if length values = 0 then first
      else Node ''calc-product''
        [first,
         Arr (map (\<lambda>(operator, v). Arr [Leaf ''token'' operator, v]) values)])"

definition calcValue_number :: "scalar \<Rightarrow> ast" where
  "calcValue_number v = Leaf ''number'' (toString v)"

definition calcValue_dimension :: "scalar \<Rightarrow> string \<Rightarrow> ast" where
  "calcValue_dimension v unit =
     Node ''dimension'' [Leaf ''dimension-number'' (toString v), Leaf ''dimension-unit'' unit]"

definition calcValue_percentage :: "scalar \<Rightarrow> ast" where
  "calcValue_percentage v =
     Node ''percentage'' [Leaf ''percentage-number'' (toString v), Leaf ''token'' ''%'']"

definition calcValue_keyword :: "string \<Rightarrow> ast" where
  "calcValue_keyword v = Leaf ''keyword'' v"

definition calcValue_group :: "ast \<Rightarrow> ast" where
  "calcValue_group v = Node ''group'' [Leaf ''token'' ''('', v, Leaf ''token'' '')'']"

definition calcValue_raw :: "string \<Rightarrow> ast" where
  "calcValue_raw v = Leaf ''raw'' v"

definition calcValue_var :: "string \<Rightarrow> ast \<Rightarrow> ast" where
  "calcValue_var name fallback =
     Node ''var''
       [Leaf ''function'' ''var'',
        Leaf ''token'' ''('',
        Leaf ''custom-property'' name,
        (if fallback \<noteq> Null then Arr [Leaf ''token'' '','', fallback] else Null),
        Leaf ''token'' '')'']"

section \<open>builder.ts\<close>

subsection \<open>value\<close>

text \<open>
  \<^verbatim>\<open>value.match(/^[+-]?(?:\d+|\d*\.\d+)(?:[eE][+-]?\d+)?/)\<close>, piece by piece, with the
  matching order of a JavaScript regular expression: a quantifier takes as much as it can,
  an alternation takes its first alternative that lets the rest of the pattern match, and
  the rest of this pattern (an optional group) always matches.
\<close>

definition is_digit :: "char \<Rightarrow> bool" where
  "is_digit c \<longleftrightarrow> c \<in> set ''0123456789''"

definition digits :: "string \<Rightarrow> string" where
  \<comment> \<open>\<^verbatim>\<open>\d*\<close>: the longest run of digits\<close>
  "digits s = takeWhile is_digit s"

definition optional_sign :: "string \<Rightarrow> string" where
  \<comment> \<open>\<^verbatim>\<open>[+-]?\<close>\<close>
  "optional_sign s =
     (case s of
        c # r \<Rightarrow> if c = CHR ''+'' \<or> c = CHR ''-'' then [c] else []
      | [] \<Rightarrow> [])"

definition integer_alternative :: "string \<Rightarrow> string option" where
  \<comment> \<open>\<^verbatim>\<open>\d+\<close>\<close>
  "integer_alternative s = (if digits s \<noteq> [] then Some (digits s) else None)"

definition decimal_alternative :: "string \<Rightarrow> string option" where
  \<comment> \<open>\<^verbatim>\<open>\d*\.\d+\<close>\<close>
  "decimal_alternative s =
     (case drop (length (digits s)) s of
        c # r \<Rightarrow> if c = CHR ''.'' \<and> digits r \<noteq> [] then Some (digits s @ c # digits r) else None
      | [] \<Rightarrow> None)"

definition mantissa :: "string \<Rightarrow> string option" where
  \<comment> \<open>\<^verbatim>\<open>(?:\d+|\d*\.\d+)\<close>: the second alternative is tried only where the first fails\<close>
  "mantissa s =
     (case integer_alternative s of
        Some m \<Rightarrow> Some m
      | None \<Rightarrow> decimal_alternative s)"

definition exponent_group :: "string \<Rightarrow> string" where
  \<comment> \<open>\<^verbatim>\<open>(?:[eE][+-]?\d+)?\<close>\<close>
  "exponent_group s =
     (case s of
        c # r \<Rightarrow>
          if (c = CHR ''e'' \<or> c = CHR ''E'')
             \<and> digits (drop (length (optional_sign r)) r) \<noteq> []
          then c # optional_sign r @ digits (drop (length (optional_sign r)) r)
          else []
      | [] \<Rightarrow> [])"

definition match_number :: "string \<Rightarrow> string option" where
  \<comment> \<open>\<open>match[0]\<close>, or \<open>None\<close> when \<open>match\<close> is \<open>null\<close>\<close>
  "match_number s =
     (case mantissa (drop (length (optional_sign s)) s) of
        None \<Rightarrow> None
      | Some m \<Rightarrow>
          Some (optional_sign s @ m
                @ exponent_group (drop (length (optional_sign s) + length m) s)))"

fun builder_value :: "scalar \<Rightarrow> ast" where
  "builder_value (Num n) = calcValue_number (Num n)"
| "builder_value (Str s) =
     (case match_number s of
        None \<Rightarrow> calcValue_raw s
      | Some numberPart \<Rightarrow>
          (let unit = drop (length numberPart) s in
           if unit = [] then calcValue_number (Str numberPart)
           else if unit = ''%'' then calcValue_percentage (Str numberPart)
           else calcValue_dimension (Str numberPart) unit))"

subsection \<open>Items and errors\<close>

text \<open>
  \<^verbatim>\<open>type AnyMaybeExpression = Ast.CalcSum | Ast.CalcProduct | number | string | null\<close>:
  an item is a scalar or a tree, and \<open>Expr Null\<close> is the item \<open>null\<close> (or an argument
  left out).
\<close>

datatype item = Scalar scalar | Expr ast

abbreviation num :: "54 word \<Rightarrow> item" where
  "num i \<equiv> Scalar (Num (Finite i))"

abbreviation str :: "string \<Rightarrow> item" where
  "str s \<equiv> Scalar (Str s)"

text \<open>\<^verbatim>\<open>!item\<close>: the falsy values are \<open>0\<close>, \<open>NaN\<close>, the empty string and \<open>null\<close>.\<close>

fun falsy :: "item \<Rightarrow> bool" where
  "falsy (Scalar (Num n)) = (n = Finite 0 \<or> n = NaN)"
| "falsy (Scalar (Str s)) = (s = [])"
| "falsy (Expr a) = (a = Null)"

text \<open>
  \<open>Expected_at_least_one_item\<close> is \<^verbatim>\<open>throw new Error("Expected at least one item.")\<close>.
  The builder reads the parts of a \<open>calc-sum\<close>, \<open>calc-product\<close> or \<open>calc\<close> node at the
  positions its TypeScript type gives them. \<open>Ill_typed\<close> is the answer of the model
  for a node of one of these kinds whose value does not have that shape, and for \<open>null\<close>
  where the signature asks for an expression: such arguments are outside the declared
  types, and what JavaScript does with them is not modelled.
\<close>

datatype error = Expected_at_least_one_item | Ill_typed

text \<open>
  The pairs \<^verbatim>\<open>[op, val]\<close> of the second component of a sum or a product, each read
  as \<open>(op.value, val)\<close>.
\<close>

fun operator_pairs :: "ast list \<Rightarrow> (string \<times> ast) list option" where
  "operator_pairs [] = Some []"
| "operator_pairs (Arr [Leaf kind v, val] # rest) =
     (case operator_pairs rest of
        None \<Rightarrow> None
      | Some ps \<Rightarrow> Some ((v, val) # ps))"
| "operator_pairs (other # rest) = None"

text \<open>The size of the tree of an item, by which the unwrapping of \<open>calc\<close> ends.\<close>

fun item_size :: "item \<Rightarrow> nat" where
  "item_size (Scalar s) = 0"
| "item_size (Expr a) = size a"

subsection \<open>addOrSubstract\<close>

text \<open>
  \<open>handleItem\<close> of \<open>addOrSubstract\<close>, with the array \<open>resolvedItems\<close> passed in and
  returned. \<open>nextOp\<close> and \<open>mergedOp\<close> are the constants of the same names in the
  callback of \<^verbatim>\<open>rest.forEach\<close>.
\<close>

definition nextOp :: "string \<Rightarrow> sign" where
  "nextOp op_value = (if op_value = '' + '' then Plus else Minus)"

definition mergedOp :: "sign \<Rightarrow> bool \<Rightarrow> string \<Rightarrow> sign" where
  "mergedOp outerOp isFirst op_value =
     (if outerOp = Minus \<and> \<not> isFirst
      then (if nextOp op_value = Plus then Minus else Plus)
      else nextOp op_value)"

function (sequential) addOrSubstract_handleItem ::
  "sign \<Rightarrow> (sign \<times> ast) list \<Rightarrow> item \<Rightarrow> error + (sign \<times> ast) list" where
  "addOrSubstract_handleItem op resolvedItems (Scalar s) =
     (if falsy (Scalar s) then Inr resolvedItems
      else Inr (resolvedItems @ [(op, builder_value s)]))"
| "addOrSubstract_handleItem op resolvedItems (Expr Null) = Inr resolvedItems"
| "addOrSubstract_handleItem op resolvedItems (Expr (Node kind v)) =
     (if kind = ''calc-sum'' then
        (case v of
           [first, Arr rest] \<Rightarrow>
             (case operator_pairs rest of
                Some pairs \<Rightarrow>
                  Inr (resolvedItems @ [(op, first)]
                       @ map (\<lambda>(op_value, val).
                                (mergedOp op (length resolvedItems = 0) op_value, val)) pairs)
              | None \<Rightarrow> Inl Ill_typed)
         | _ \<Rightarrow> Inl Ill_typed)
      else if kind = ''calc'' then
        (case v of
           [fn, opening, inner, closing] \<Rightarrow> addOrSubstract_handleItem op resolvedItems (Expr inner)
         | _ \<Rightarrow> Inl Ill_typed)
      else Inr (resolvedItems @ [(op, Node kind v)]))"
| "addOrSubstract_handleItem op resolvedItems (Expr (Leaf kind v)) =
     (if kind = ''calc-sum'' \<or> kind = ''calc'' then Inl Ill_typed
      else Inr (resolvedItems @ [(op, Leaf kind v)]))"
| "addOrSubstract_handleItem op resolvedItems (Expr (Arr vs)) =
     Inr (resolvedItems @ [(op, Arr vs)])"
  by pat_completeness auto
termination
  by (relation "measure (\<lambda>(op, resolvedItems, item). item_size item)") auto

text \<open>\<^verbatim>\<open>for (const item of items) handleItem(item)\<close>; an exception ends the loop.\<close>

fun addOrSubstract_items ::
  "sign \<Rightarrow> (sign \<times> ast) list \<Rightarrow> item list \<Rightarrow> error + (sign \<times> ast) list" where
  "addOrSubstract_items op resolvedItems [] = Inr resolvedItems"
| "addOrSubstract_items op resolvedItems (item # items) =
     (case addOrSubstract_handleItem op resolvedItems item of
        Inl e \<Rightarrow> Inl e
      | Inr resolvedItems' \<Rightarrow> addOrSubstract_items op resolvedItems' items)"

definition addOrSubstract :: "sign \<Rightarrow> item list \<Rightarrow> error + ast" where
  "addOrSubstract op items =
     (case addOrSubstract_items op [] items of
        Inl e \<Rightarrow> Inl e
      | Inr [] \<Rightarrow> Inl Expected_at_least_one_item
      | Inr (first # resolvedItems) \<Rightarrow> Inr (create_calc (clacSum (snd first) resolvedItems)))"

definition add :: "item list \<Rightarrow> error + ast" where
  "add items = addOrSubstract Plus items"

definition substract :: "item list \<Rightarrow> error + ast" where
  "substract items = addOrSubstract Minus items"

subsection \<open>multiplyOrDivide\<close>

function (sequential) multiplyOrDivide_handleItem ::
  "string \<Rightarrow> (string \<times> ast) list \<Rightarrow> item \<Rightarrow> error + (string \<times> ast) list" where
  "multiplyOrDivide_handleItem op resolvedItems (Scalar s) =
     (if falsy (Scalar s) then Inr resolvedItems
      else Inr (resolvedItems @ [(op, builder_value s)]))"
| "multiplyOrDivide_handleItem op resolvedItems (Expr Null) = Inr resolvedItems"
| "multiplyOrDivide_handleItem op resolvedItems (Expr (Node kind v)) =
     (if kind = ''calc-product'' then
        (case v of
           [first, Arr rest] \<Rightarrow>
             (case operator_pairs rest of
                Some pairs \<Rightarrow> Inr (resolvedItems @ [(op, first)] @ pairs)
              | None \<Rightarrow> Inl Ill_typed)
         | _ \<Rightarrow> Inl Ill_typed)
      else if kind = ''calc-sum'' then
        Inr (resolvedItems @ [(op, calcValue_group (Node kind v))])
      else if kind = ''calc'' then
        (case v of
           [fn, opening, inner, closing] \<Rightarrow>
             multiplyOrDivide_handleItem op resolvedItems (Expr inner)
         | _ \<Rightarrow> Inl Ill_typed)
      else Inr (resolvedItems @ [(op, Node kind v)]))"
| "multiplyOrDivide_handleItem op resolvedItems (Expr (Leaf kind v)) =
     (if kind = ''calc-product'' \<or> kind = ''calc'' then Inl Ill_typed
      else if kind = ''calc-sum'' then
        Inr (resolvedItems @ [(op, calcValue_group (Leaf kind v))])
      else Inr (resolvedItems @ [(op, Leaf kind v)]))"
| "multiplyOrDivide_handleItem op resolvedItems (Expr (Arr vs)) =
     Inr (resolvedItems @ [(op, Arr vs)])"
  by pat_completeness auto
termination
  by (relation "measure (\<lambda>(op, resolvedItems, item). item_size item)") auto

fun multiplyOrDivide_items ::
  "string \<Rightarrow> (string \<times> ast) list \<Rightarrow> item list \<Rightarrow> error + (string \<times> ast) list" where
  "multiplyOrDivide_items op resolvedItems [] = Inr resolvedItems"
| "multiplyOrDivide_items op resolvedItems (item # items) =
     (case multiplyOrDivide_handleItem op resolvedItems item of
        Inl e \<Rightarrow> Inl e
      | Inr resolvedItems' \<Rightarrow> multiplyOrDivide_items op resolvedItems' items)"

definition multiplyOrDivide :: "string \<Rightarrow> item list \<Rightarrow> error + ast" where
  "multiplyOrDivide op items =
     (case multiplyOrDivide_items op [] items of
        Inl e \<Rightarrow> Inl e
      | Inr [] \<Rightarrow> Inl Expected_at_least_one_item
      | Inr (first # resolvedItems) \<Rightarrow>
          Inr (create_calc (calcProduct (snd first) resolvedItems)))"

definition multiply :: "item list \<Rightarrow> error + ast" where
  "multiply items = multiplyOrDivide ''*'' items"

definition divide :: "item list \<Rightarrow> error + ast" where
  "divide items = multiplyOrDivide ''/'' items"

subsection \<open>resolveCalcSums, min, max\<close>

fun resolveCalcSums_handleItem :: "ast list \<Rightarrow> item \<Rightarrow> error + ast list" where
  "resolveCalcSums_handleItem resolvedItems (Scalar s) =
     (if falsy (Scalar s) then Inr resolvedItems
      else Inr (resolvedItems @ [builder_value s]))"
| "resolveCalcSums_handleItem resolvedItems (Expr Null) = Inr resolvedItems"
| "resolveCalcSums_handleItem resolvedItems (Expr (Node kind v)) =
     (if kind = ''calc'' then
        (case v of
           [fn, opening, inner, closing] \<Rightarrow> Inr (resolvedItems @ [inner])
         | _ \<Rightarrow> Inl Ill_typed)
      else Inr (resolvedItems @ [Node kind v]))"
| "resolveCalcSums_handleItem resolvedItems (Expr (Leaf kind v)) =
     (if kind = ''calc'' then Inl Ill_typed else Inr (resolvedItems @ [Leaf kind v]))"
| "resolveCalcSums_handleItem resolvedItems (Expr (Arr vs)) = Inr (resolvedItems @ [Arr vs])"

fun resolveCalcSums_items :: "ast list \<Rightarrow> item list \<Rightarrow> error + ast list" where
  "resolveCalcSums_items resolvedItems [] = Inr resolvedItems"
| "resolveCalcSums_items resolvedItems (item # items) =
     (case resolveCalcSums_handleItem resolvedItems item of
        Inl e \<Rightarrow> Inl e
      | Inr resolvedItems' \<Rightarrow> resolveCalcSums_items resolvedItems' items)"

definition resolveCalcSums :: "item list \<Rightarrow> error + ast list" where
  "resolveCalcSums items = resolveCalcSums_items [] items"

text \<open>
  \<^verbatim>\<open>const first = resolvedItems.shift(); if (!first) throw ...\<close>: \<open>first\<close> is missing when
  the array is empty, and \<open>!first\<close> also holds of a first element that is \<open>null\<close>.
\<close>

definition builder_min :: "item list \<Rightarrow> error + ast" where
  "builder_min items =
     (case resolveCalcSums items of
        Inl e \<Rightarrow> Inl e
      | Inr [] \<Rightarrow> Inl Expected_at_least_one_item
      | Inr (first # resolvedItems) \<Rightarrow>
          if first = Null then Inl Expected_at_least_one_item
          else Inr (create_min first resolvedItems))"

definition builder_max :: "item list \<Rightarrow> error + ast" where
  "builder_max items =
     (case resolveCalcSums items of
        Inl e \<Rightarrow> Inl e
      | Inr [] \<Rightarrow> Inl Expected_at_least_one_item
      | Inr (first # resolvedItems) \<Rightarrow>
          if first = Null then Inl Expected_at_least_one_item
          else Inr (create_max first resolvedItems))"

subsection \<open>anyExprToCalcSum, clamp, exp, pow, round\<close>

fun anyExprToCalcSum :: "item \<Rightarrow> error + ast" where
  "anyExprToCalcSum (Scalar s) = Inr (builder_value s)"
| "anyExprToCalcSum (Expr Null) = Inl Ill_typed"
| "anyExprToCalcSum (Expr (Node kind v)) =
     (if kind = ''calc'' then
        (case v of
           [fn, opening, inner, closing] \<Rightarrow> Inr inner
         | _ \<Rightarrow> Inl Ill_typed)
      else Inr (Node kind v))"
| "anyExprToCalcSum (Expr (Leaf kind v)) =
     (if kind = ''calc'' then Inl Ill_typed else Inr (Leaf kind v))"
| "anyExprToCalcSum (Expr (Arr vs)) = Inr (Arr vs)"

text \<open>
  \<^verbatim>\<open>min === "none" ? { kind: "keyword", value: "none" } : anyExprToCalcSum(min)\<close>. The
  three arguments of \<open>create.clamp\<close> are evaluated from left to right.
\<close>

definition noneOrCalcSum :: "item \<Rightarrow> error + ast" where
  "noneOrCalcSum item =
     (if item = Scalar (Str ''none'') then Inr (Leaf ''keyword'' ''none'')
      else anyExprToCalcSum item)"

definition builder_clamp :: "item \<Rightarrow> item \<Rightarrow> item \<Rightarrow> error + ast" where
  "builder_clamp mn preferred mx =
     (case noneOrCalcSum mn of
        Inl e \<Rightarrow> Inl e
      | Inr mn' \<Rightarrow>
          (case anyExprToCalcSum preferred of
             Inl e \<Rightarrow> Inl e
           | Inr preferred' \<Rightarrow>
               (case noneOrCalcSum mx of
                  Inl e \<Rightarrow> Inl e
                | Inr mx' \<Rightarrow> Inr (create_clamp mn' preferred' mx'))))"

definition builder_exp :: "item \<Rightarrow> error + ast" where
  "builder_exp item =
     (case item of
        Scalar s \<Rightarrow> Inr (create_exp (builder_value s))
      | Expr a \<Rightarrow>
          (case anyExprToCalcSum item of
             Inl e \<Rightarrow> Inl e
           | Inr sum_node \<Rightarrow> Inr (create_exp sum_node)))"

definition builder_pow :: "item \<Rightarrow> item \<Rightarrow> error + ast" where
  "builder_pow base exponent =
     (case anyExprToCalcSum base of
        Inl e \<Rightarrow> Inl e
      | Inr base' \<Rightarrow>
          (case anyExprToCalcSum exponent of
             Inl e \<Rightarrow> Inl e
           | Inr exponent' \<Rightarrow> Inr (create_pow base' exponent')))"

text \<open>
  \<^verbatim>\<open>if (value == null) throw ...\<close> holds of \<open>null\<close> and of a missing argument only;
  \<^verbatim>\<open>interval ? anyExprToCalcSum(interval) : undefined\<close> tests the truthiness of the
  interval.
\<close>

definition builder_round :: "roundStrategy option \<Rightarrow> item \<Rightarrow> item \<Rightarrow> error + ast" where
  "builder_round strategy v interval =
     (if v = Expr Null then Inl Expected_at_least_one_item
      else
        (case anyExprToCalcSum v of
           Inl e \<Rightarrow> Inl e
         | Inr v' \<Rightarrow>
             (if falsy interval then Inr (create_round strategy v' Null)
              else
                (case anyExprToCalcSum interval of
                   Inl e \<Rightarrow> Inl e
                 | Inr interval' \<Rightarrow> Inr (create_round strategy v' interval')))))"

text \<open>
  \<^verbatim>\<open>serialize(f(...))\<close> of a call that may throw: the exception of the call goes
  through.
\<close>

definition serialized :: "error + ast \<Rightarrow> error + string" where
  "serialized r = (case r of Inl e \<Rightarrow> Inl e | Inr node \<Rightarrow> Inr (serialize node))"

subsection \<open>Nested calls\<close>

text \<open>
  \<open>add(add(a, b), c)\<close> and \<open>add(create.calc(add(a, b)), c)\<close>: an exception of the inner
  call ends the outer one.
\<close>

definition add_nested :: "item \<Rightarrow> item \<Rightarrow> item \<Rightarrow> error + ast" where
  "add_nested a b c =
     (case add [a, b] of
        Inl e \<Rightarrow> Inl e
      | Inr inner \<Rightarrow> add [Expr inner, c])"

definition add_nested_calc :: "item \<Rightarrow> item \<Rightarrow> item \<Rightarrow> error + ast" where
  "add_nested_calc a b c =
     (case add [a, b] of
        Inl e \<Rightarrow> Inl e
      | Inr inner \<Rightarrow> add [Expr (create_calc inner), c])"

text \<open>
  An item contributes to a sum when \<open>handleItem\<close> does not leave the resolved items as
  they are: it appends at least one term, or it is refused.
\<close>

definition contributes :: "item \<Rightarrow> bool" where
  "contributes item \<longleftrightarrow> addOrSubstract_handleItem Plus [] item \<noteq> Inr []"

text \<open>
  The trees that \<open>handleItem\<close> of \<open>addOrSubstract\<close> reaches its last statement with,
  \<^verbatim>\<open>resolvedItems.push([op, item])\<close>: those that are not missing and whose kind is
  neither \<open>calc-sum\<close> nor \<open>calc\<close>.
\<close>

fun appended_as_is :: "ast \<Rightarrow> bool" where
  "appended_as_is Null = False"
| "appended_as_is (Arr vs) = True"
| "appended_as_is (Leaf kind v) = (kind \<noteq> ''calc-sum'' \<and> kind \<noteq> ''calc'')"
| "appended_as_is (Node kind v) = (kind \<noteq> ''calc-sum'' \<and> kind \<noteq> ''calc'')"

section \<open>The serializer\<close>

lemma push_reversed_append: "push_reversed current stack = current @ stack"
  by (induction current) (simp_all add: push_reversed_def)

lemma serialize_loop_tokens:
  "serialize_loop stack out = out @ concat (map leaf_tokens stack)"
  by (induction stack out rule: serialize_loop.induct)
    (simp_all add: push_reversed_append)

lemma serialize_tokens: "serialize node = leaf_tokens node"
  by (simp add: serialize_def serialize_loop_tokens)

text \<open>
  Claim C8. \<open>serialize\<close> is a total function (its loop is defined with a termination
  proof, whatever the depth of the tree), and on every tree the stack-based loop returns
  the left-to-right concatenation of the leaf tokens that the naive recursive traversal
  returns; a missing value contributes nothing.
\<close>

theorem serialize_refines_leaf_tokens:
  "serialize node = leaf_tokens node
   \<and> serialize_loop stack out = out @ concat (map leaf_tokens stack)"
  by (simp add: serialize_tokens serialize_loop_tokens)

lemma tokens_clacSum:
  "leaf_tokens (clacSum first products) =
     leaf_tokens first
     @ concat (map (\<lambda>(operator, product).
                 '' '' @ sign_string operator @ '' '' @ leaf_tokens product) products)"
proof -
  have "concat (map (leaf_tokens \<circ> (\<lambda>(operator, product).
            Arr [Leaf ''token'' ('' '' @ sign_string operator @ '' ''), product])) ps)
        = concat (map (\<lambda>(operator, product).
            '' '' @ sign_string operator @ '' '' @ leaf_tokens product) ps)" for ps
    by (induction ps) (auto)
  then show ?thesis
    by (simp add: clacSum_def)
qed

lemma tokens_calcProduct:
  "leaf_tokens (calcProduct first values) =
     leaf_tokens first
     @ concat (map (\<lambda>(operator, v). operator @ leaf_tokens v) values)"
proof -
  have "concat (map (leaf_tokens \<circ> (\<lambda>(operator, v). Arr [Leaf ''token'' operator, v])) ps)
        = concat (map (\<lambda>(operator, v). operator @ leaf_tokens v) ps)" for ps
    by (induction ps) auto
  then show ?thesis
    by (simp add: calcProduct_def)
qed

lemma tokens_comma_list:
  "concat (map (leaf_tokens \<circ> (\<lambda>item. Arr [Leaf ''token'' '','', item])) rest)
   = concat (map (\<lambda>item. '','' @ leaf_tokens item) rest)"
  by (induction rest) auto

lemma tokens_create_min:
  "leaf_tokens (create_min first rest) =
     ''min('' @ leaf_tokens first @ concat (map (\<lambda>item. '','' @ leaf_tokens item) rest) @ '')''"
  by (simp add: create_min_def tokens_comma_list)

lemma tokens_create_max:
  "leaf_tokens (create_max first rest) =
     ''max('' @ leaf_tokens first @ concat (map (\<lambda>item. '','' @ leaf_tokens item) rest) @ '')''"
  by (simp add: create_max_def tokens_comma_list)

lemma tokens_create_clamp:
  "leaf_tokens (create_clamp mn preferred mx) =
     ''clamp('' @ leaf_tokens mn @ '','' @ leaf_tokens preferred @ '','' @ leaf_tokens mx @ '')''"
  by (simp add: create_clamp_def)

lemma tokens_create_calc:
  "leaf_tokens (create_calc sum_node) = ''calc('' @ leaf_tokens sum_node @ '')''"
  by (simp add: create_calc_def)

lemma tokens_calcValue_group:
  "leaf_tokens (calcValue_group v) = ''('' @ leaf_tokens v @ '')''"
  by (simp add: calcValue_group_def)

section \<open>The value parser\<close>

lemma optional_sign_cases:
  "optional_sign s = [] \<or> (\<exists>c r. s = c # r \<and> optional_sign s = [c])"
  by (cases s) (simp_all add: optional_sign_def)

lemma optional_sign_prefix: "optional_sign s @ drop (length (optional_sign s)) s = s"
proof -
  from optional_sign_cases [of s] show ?thesis
  proof
    assume "optional_sign s = []"
    then show ?thesis by simp
  next
    assume "\<exists>c r. s = c # r \<and> optional_sign s = [c]"
    then obtain c r where "s = c # r" "optional_sign s = [c]" by blast
    then show ?thesis by simp
  qed
qed

lemma digits_prefix: "digits s @ drop (length (digits s)) s = s"
  by (simp add: digits_def flip: dropWhile_eq_drop)

lemma mantissa_prefix:
  assumes "mantissa s = Some m"
  shows "m @ drop (length m) s = s"
proof (cases "digits s = []")
  case False
  with assms have "m = digits s"
    by (simp add: mantissa_def integer_alternative_def)
  then show ?thesis
    by (simp add: digits_prefix)
next
  case True
  with assms obtain c r where
    rest: "drop (length (digits s)) s = c # r" and m: "m = digits s @ c # digits r"
    by (auto simp: mantissa_def integer_alternative_def decimal_alternative_def
        split: list.splits if_splits)
  from rest True have s: "s = c # r"
    by simp
  have "digits r @ drop (length (digits r)) r = r"
    by (rule digits_prefix)
  with m True s show ?thesis
    by simp
qed

lemma exponent_group_prefix: "exponent_group s @ drop (length (exponent_group s)) s = s"
proof (cases s)
  case Nil
  then show ?thesis
    by (simp add: exponent_group_def)
next
  case (Cons c r)
  have "optional_sign r @ digits (drop (length (optional_sign r)) r)
        @ drop (length (optional_sign r) + length (digits (drop (length (optional_sign r)) r))) r
        = r"
    using optional_sign_prefix [of r] digits_prefix [of "drop (length (optional_sign r)) r"]
    by (simp add: add.commute)
  with Cons show ?thesis
    by (simp add: exponent_group_def)
qed

lemma match_number_prefix:
  assumes "match_number s = Some numberPart"
  shows "numberPart @ drop (length numberPart) s = s"
proof -
  let ?sg = "optional_sign s"
  from assms obtain m where
    m: "mantissa (drop (length ?sg) s) = Some m" and
    np: "numberPart = ?sg @ m @ exponent_group (drop (length ?sg + length m) s)"
    by (auto simp: match_number_def split: option.splits)
  let ?e = "exponent_group (drop (length ?sg + length m) s)"
  have 1: "?sg @ drop (length ?sg) s = s"
    by (rule optional_sign_prefix)
  have 2: "m @ drop (length m) (drop (length ?sg) s) = drop (length ?sg) s"
    using m by (rule mantissa_prefix)
  have 3: "?e @ drop (length ?e) (drop (length ?sg + length m) s) = drop (length ?sg + length m) s"
    by (rule exponent_group_prefix)
  have "drop (length numberPart) s = drop (length ?e) (drop (length ?sg + length m) s)"
    by (simp add: np ac_simps)
  then have "numberPart @ drop (length numberPart) s
      = ?sg @ m @ ?e @ drop (length ?e) (drop (length ?sg + length m) s)"
    by (simp add: np)
  also have "\<dots> = ?sg @ m @ drop (length ?sg + length m) s"
    by (simp only: 3)
  also have "\<dots> = ?sg @ m @ drop (length m) (drop (length ?sg) s)"
    by (simp add: add.commute)
  also have "\<dots> = s"
    by (simp only: 2 1)
  finally show ?thesis .
qed

lemma tokens_builder_value_string: "leaf_tokens (builder_value (Str s)) = s"
proof (cases "match_number s")
  case None
  then show ?thesis
    by (simp add: calcValue_raw_def)
next
  case (Some numberPart)
  then have whole: "numberPart @ drop (length numberPart) s = s"
    by (rule match_number_prefix)
  show ?thesis
  proof (cases "drop (length numberPart) s = []")
    case True
    with whole have "numberPart = s"
      by simp
    with Some True show ?thesis
      by (simp add: calcValue_number_def)
  next
    case False
    with Some whole show ?thesis
      by (auto simp: Let_def calcValue_percentage_def calcValue_dimension_def)
  qed
qed

text \<open>
  Claim C6. For every string \<open>s\<close>, with a numeric prefix or without one,
  \<open>serialize(value(s))\<close> is \<open>s\<close>; so for \<open>12.5\<close>, \<open>50%\<close>, \<open>10px\<close> and \<open>var(--x)\<close>.
\<close>

theorem leaf_round_trip:
  "serialize (builder_value (Str s)) = s
   \<and> serialize (builder_value (Str ''12.5'')) = ''12.5''
   \<and> serialize (builder_value (Str ''50%'')) = ''50%''
   \<and> serialize (builder_value (Str ''10px'')) = ''10px''
   \<and> serialize (builder_value (Str ''var(--x)'')) = ''var(--x)''
   \<and> builder_value (Str ''var(--x)'') = Leaf ''raw'' ''var(--x)''"
proof (intro conjI)
  show "builder_value (Str ''var(--x)'') = Leaf ''raw'' ''var(--x)''"
    by code_simp
qed (simp_all only: serialize_tokens tokens_builder_value_string)

lemma value_classification:
  "builder_value (Num n) = Leaf ''number'' (number_toString n)"
  "match_number s = None \<Longrightarrow> builder_value (Str s) = Leaf ''raw'' s"
  "match_number s = Some numberPart \<Longrightarrow> drop (length numberPart) s = [] \<Longrightarrow>
     builder_value (Str s) = Leaf ''number'' numberPart"
  "match_number s = Some numberPart \<Longrightarrow> drop (length numberPart) s = ''%'' \<Longrightarrow>
     builder_value (Str s)
     = Node ''percentage'' [Leaf ''percentage-number'' numberPart, Leaf ''token'' ''%'']"
  "match_number s = Some numberPart \<Longrightarrow> drop (length numberPart) s = unit \<Longrightarrow>
   unit \<noteq> [] \<Longrightarrow> unit \<noteq> ''%'' \<Longrightarrow>
     builder_value (Str s)
     = Node ''dimension'' [Leaf ''dimension-number'' numberPart, Leaf ''dimension-unit'' unit]"
  by (simp_all add: calcValue_number_def calcValue_raw_def calcValue_percentage_def
      calcValue_dimension_def)

text \<open>
  Claim C4, at the decimal string \<open>12.5\<close>: the first alternative \<open>\d+\<close> of the pattern
  matches \<open>12\<close> and the rest of the pattern matches the empty string, so the match is
  \<open>12\<close>, the suffix is \<open>.5\<close> and the node is a dimension of unit \<open>.5\<close>, not a number.
\<close>

theorem value_decimal_string:
  "match_number ''12.5'' = Some ''12''
   \<and> builder_value (Str ''12.5'')
     = Node ''dimension'' [Leaf ''dimension-number'' ''12'', Leaf ''dimension-unit'' ''.5'']
   \<and> builder_value (Str ''12.5'') \<noteq> Leaf ''number'' ''12.5''
   \<and> builder_value (Str ''1.5em'')
     = Node ''dimension'' [Leaf ''dimension-number'' ''1'', Leaf ''dimension-unit'' ''.5em'']
   \<and> builder_value (Str ''.5'') = Leaf ''number'' ''.5''"
  by code_simp

section \<open>The constructors of sums, products and argument lists\<close>

text \<open>
  Claim C7. \<open>clacSum\<close> and \<open>calcProduct\<close> return \<open>first\<close> itself when they are given no
  operator pair, and the node they build otherwise has at least one pair; so the sum and the
  product of a single operand serialize as the operand does.
\<close>

theorem single_operand_collapse:
  "clacSum first [] = first
   \<and> calcProduct first [] = first
   \<and> (products \<noteq> [] \<longrightarrow>
        (\<exists>pair pairs. clacSum first products = Node ''calc-sum'' [first, Arr (pair # pairs)]))
   \<and> (values \<noteq> [] \<longrightarrow>
        (\<exists>pair pairs. calcProduct first values = Node ''calc-product'' [first, Arr (pair # pairs)]))
   \<and> serialize (clacSum x []) = serialize x
   \<and> serialize (calcProduct x []) = serialize x"
  by (cases products; cases "values") (simp_all add: clacSum_def calcProduct_def)

theorem single_operand_collapse_witness:
  "[(Plus, Leaf ''number'' ''2'')] \<noteq> []
   \<and> [(''*'', Leaf ''number'' ''2'')] \<noteq> []
   \<and> clacSum (Leaf ''number'' ''1'') [] = Leaf ''number'' ''1''
   \<and> (\<exists>pair pairs. clacSum (Leaf ''number'' ''1'') [(Plus, Leaf ''number'' ''2'')]
         = Node ''calc-sum'' [Leaf ''number'' ''1'', Arr (pair # pairs)])
   \<and> (\<exists>pair pairs. calcProduct (Leaf ''number'' ''1'') [(''*'', Leaf ''number'' ''2'')]
         = Node ''calc-product'' [Leaf ''number'' ''1'', Arr (pair # pairs)])"
  using single_operand_collapse
    [of "Leaf ''number'' ''1''" "[(Plus, Leaf ''number'' ''2'')]" "[(''*'', Leaf ''number'' ''2'')]"]
  by simp

text \<open>
  Claim C9. A sum puts one space on each side of every operator, a product puts its
  operators (\<open>*\<close> for \<open>multiply\<close>, \<open>/\<close> for \<open>divide\<close>) between the values with no space,
  and the arguments of \<open>min\<close>, \<open>max\<close> and \<open>clamp\<close> are separated by a bare comma. In
  particular \<open>clamp(calc(5 + 1), 7, calc(10 - 2))\<close> serializes to
  \<open>clamp(5 + 1,7,10 - 2)\<close>.
\<close>

theorem output_format:
  "serialize (clacSum first products) =
     serialize first
     @ concat (map (\<lambda>(operator, product).
                 '' '' @ sign_string operator @ '' '' @ serialize product) products)
   \<and> sign_string Plus = ''+'' \<and> sign_string Minus = ''-''
   \<and> serialize (calcProduct first values) =
     serialize first @ concat (map (\<lambda>(operator, v). operator @ serialize v) values)
   \<and> serialized (multiply [Expr (Leaf ''raw'' a), Expr (Leaf ''raw'' b)]) = Inr (''calc('' @ a @ ''*'' @ b @ '')'')
   \<and> serialized (divide [Expr (Leaf ''raw'' a), Expr (Leaf ''raw'' b)]) = Inr (''calc('' @ a @ ''/'' @ b @ '')'')
   \<and> serialize (create_min first rest) =
     ''min('' @ serialize first @ concat (map (\<lambda>item. '','' @ serialize item) rest) @ '')''
   \<and> serialize (create_max first rest) =
     ''max('' @ serialize first @ concat (map (\<lambda>item. '','' @ serialize item) rest) @ '')''
   \<and> serialize (create_clamp mn preferred mx) =
     ''clamp('' @ serialize mn @ '','' @ serialize preferred @ '','' @ serialize mx @ '')''
   \<and> serialized (builder_clamp
         (Expr (create_calc (clacSum (calcValue_number (Num (Finite 5)))
                               [(Plus, calcValue_number (Num (Finite 1)))])))
         (num 7)
         (Expr (create_calc (clacSum (calcValue_number (Num (Finite 10)))
                               [(Minus, calcValue_number (Num (Finite 2)))]))))
       = Inr ''clamp(5 + 1,7,10 - 2)''"
proof (intro conjI)
  show "serialized (builder_clamp
         (Expr (create_calc (clacSum (calcValue_number (Num (Finite 5)))
                               [(Plus, calcValue_number (Num (Finite 1)))])))
         (num 7)
         (Expr (create_calc (clacSum (calcValue_number (Num (Finite 10)))
                               [(Minus, calcValue_number (Num (Finite 2)))]))))
       = Inr ''clamp(5 + 1,7,10 - 2)''"
    by code_simp
  show "serialized (multiply [Expr (Leaf ''raw'' a), Expr (Leaf ''raw'' b)]) = Inr (''calc('' @ a @ ''*'' @ b @ '')'')"
    by (simp add: serialized_def multiply_def multiplyOrDivide_def serialize_tokens
        tokens_create_calc tokens_calcProduct)
  show "serialized (divide [Expr (Leaf ''raw'' a), Expr (Leaf ''raw'' b)]) = Inr (''calc('' @ a @ ''/'' @ b @ '')'')"
    by (simp add: serialized_def divide_def multiplyOrDivide_def serialize_tokens
        tokens_create_calc tokens_calcProduct)
qed (simp_all add: serialize_tokens tokens_clacSum tokens_calcProduct tokens_create_min
      tokens_create_max tokens_create_clamp)

section \<open>The sum merge\<close>

lemma operator_pairs_sum_tokens:
  "operator_pairs (map (\<lambda>(operator, product).
       Arr [Leaf ''token'' ('' '' @ sign_string operator @ '' ''), product]) pairs)
   = Some (map (\<lambda>(operator, product). ('' '' @ sign_string operator @ '' '', product)) pairs)"
  by (induction pairs) auto

lemma addOrSubstract_items_append:
  "addOrSubstract_items op resolvedItems (xs @ ys) =
     (case addOrSubstract_items op resolvedItems xs of
        Inl e \<Rightarrow> Inl e
      | Inr resolvedItems' \<Rightarrow> addOrSubstract_items op resolvedItems' ys)"
  by (induction xs arbitrary: resolvedItems) (auto split: sum.splits)

lemma handle_calc_sum:
  "addOrSubstract_handleItem op resolvedItems
     (Expr (Node ''calc-sum''
        [first, Arr (map (\<lambda>(operator, product).
                      Arr [Leaf ''token'' ('' '' @ sign_string operator @ '' ''), product]) pairs)]))
   = Inr (resolvedItems @ [(op, first)]
          @ map (\<lambda>(operator, product).
                   (if op = Minus \<and> resolvedItems \<noteq> []
                    then (case operator of Plus \<Rightarrow> Minus | Minus \<Rightarrow> Plus)
                    else operator, product)) pairs)"
proof -
  have pairs_read: "operator_pairs (map (\<lambda>(operator, product).
       Arr [Leaf ''token'' ('' '' @ sign_string operator @ '' ''), product]) pairs)
   = Some (map (\<lambda>(operator, product). ('' '' @ sign_string operator @ '' '', product)) pairs)"
    by (rule operator_pairs_sum_tokens)
  have merged: "map (\<lambda>(op_value, val). (mergedOp op isFirst op_value, val))
        (map (\<lambda>(operator, product). ('' '' @ sign_string operator @ '' '', product)) pairs)
      = map (\<lambda>(operator, product).
                   (if op = Minus \<and> \<not> isFirst
                    then (case operator of Plus \<Rightarrow> Minus | Minus \<Rightarrow> Plus)
                    else operator, product)) pairs" for isFirst
    by (induction pairs) (auto simp: mergedOp_def nextOp_def split: sign.splits)
  show ?thesis
    using pairs_read merged [of "resolvedItems = []"] by simp
qed

text \<open>
  Claim C1. Handling a \<open>calc-sum\<close> node appends its first term with the outer sign and
  each following pair with its own sign, flipped exactly when the outer operation is
  \<open>-\<close> and something was already contributed to the output; so does every call in
  whose item list the node stands, after the items before it. In particular
  \<open>substract(10, clacSum(5, ['+', 2], ['-', 1]))\<close> serializes to
  \<open>calc(10 - 5 - 2 + 1)\<close>.
\<close>

theorem sum_merge_sign_propagation:
  "addOrSubstract_handleItem op resolvedItems
     (Expr (Node ''calc-sum''
        [first, Arr (map (\<lambda>(operator, product).
                      Arr [Leaf ''token'' ('' '' @ sign_string operator @ '' ''), product]) pairs)]))
   = Inr (resolvedItems @ [(op, first)]
          @ map (\<lambda>(operator, product).
                   (if op = Minus \<and> resolvedItems \<noteq> []
                    then (case operator of Plus \<Rightarrow> Minus | Minus \<Rightarrow> Plus)
                    else operator, product)) pairs)
   \<and> addOrSubstract_items op [] (before @ Expr (Node ''calc-sum''
        [first, Arr (map (\<lambda>(operator, product).
                      Arr [Leaf ''token'' ('' '' @ sign_string operator @ '' ''), product]) pairs)]) # after)
     = (case addOrSubstract_items op [] before of
          Inl e \<Rightarrow> Inl e
        | Inr resolvedItems \<Rightarrow>
            addOrSubstract_items op
              (resolvedItems @ [(op, first)]
               @ map (\<lambda>(operator, product).
                   (if op = Minus \<and> resolvedItems \<noteq> []
                    then (case operator of Plus \<Rightarrow> Minus | Minus \<Rightarrow> Plus)
                    else operator, product)) pairs) after)
   \<and> serialized (substract
         [num 10,
          Expr (clacSum (calcValue_number (Num (Finite 5)))
                  [(Plus, calcValue_number (Num (Finite 2))),
                   (Minus, calcValue_number (Num (Finite 1)))])])
       = Inr ''calc(10 - 5 - 2 + 1)''"
proof (intro conjI)
  show "serialized (substract
         [num 10,
          Expr (clacSum (calcValue_number (Num (Finite 5)))
                  [(Plus, calcValue_number (Num (Finite 2))),
                   (Minus, calcValue_number (Num (Finite 1)))])])
       = Inr ''calc(10 - 5 - 2 + 1)''"
    by code_simp
qed (simp_all only: handle_calc_sum addOrSubstract_items_append addOrSubstract_items.simps sum.case
      split: sum.splits)

lemma mergedOp_Plus: "mergedOp Plus isFirst op_value = nextOp op_value"
  by (simp add: mergedOp_def)

lemma addOrSubstract_handleItem_Plus_aux:
  "op = Plus \<Longrightarrow>
   addOrSubstract_handleItem op resolvedItems item =
     (case addOrSubstract_handleItem op [] item of
        Inl e \<Rightarrow> Inl e
      | Inr contributed \<Rightarrow> Inr (resolvedItems @ contributed))"
proof (induction op resolvedItems item rule: addOrSubstract_handleItem.induct)
  case (3 op resolvedItems kind v)
  show ?case
  proof (cases "kind = ''calc''")
    case True
    then show ?thesis
      using 3 by (simp split: list.splits)
  next
    case False
    then show ?thesis
      using "3.prems" by (simp add: mergedOp_Plus split: list.splits ast.splits option.splits)
  qed
qed simp_all

lemma addOrSubstract_handleItem_Plus:
  "addOrSubstract_handleItem Plus resolvedItems item =
     (case addOrSubstract_handleItem Plus [] item of
        Inl e \<Rightarrow> Inl e
      | Inr contributed \<Rightarrow> Inr (resolvedItems @ contributed))"
  by (rule addOrSubstract_handleItem_Plus_aux) simp

lemma addOrSubstract_items_Plus:
  "addOrSubstract_items Plus resolvedItems items =
     (case addOrSubstract_items Plus [] items of
        Inl e \<Rightarrow> Inl e
      | Inr contributed \<Rightarrow> Inr (resolvedItems @ contributed))"
proof (induction items arbitrary: resolvedItems)
  case Nil
  show ?case by simp
next
  case (Cons item items)
  show ?case
  proof (cases "addOrSubstract_handleItem Plus [] item")
    case (Inl e)
    then show ?thesis
      by (simp add: addOrSubstract_handleItem_Plus [of resolvedItems])
  next
    case (Inr d)
    then show ?thesis
      using Cons.IH [of "resolvedItems @ d"] Cons.IH [of d]
      by (simp add: addOrSubstract_handleItem_Plus [of resolvedItems] split: sum.splits)
  qed
qed

lemma handle_built_sum:
  assumes "rest \<noteq> []"
  shows "addOrSubstract_handleItem Plus resolvedItems (Expr (clacSum first rest))
         = Inr (resolvedItems @ (Plus, first) # rest)"
proof -
  have sum: "clacSum first rest = Node ''calc-sum''
        [first, Arr (map (\<lambda>(operator, product).
                      Arr [Leaf ''token'' ('' '' @ sign_string operator @ '' ''), product]) rest)]"
    using assms by (simp add: clacSum_def)
  have "map (\<lambda>(operator, product). (if Plus = Minus \<and> resolvedItems \<noteq> []
                    then (case operator of Plus \<Rightarrow> Minus | Minus \<Rightarrow> Plus)
                    else operator, product)) rest = rest"
    by (induction rest) auto
  then show ?thesis
    by (simp only: sum handle_calc_sum) simp
qed

lemma handle_create_calc:
  "addOrSubstract_handleItem op resolvedItems (Expr (create_calc inner))
   = addOrSubstract_handleItem op resolvedItems (Expr inner)"
  by (simp add: create_calc_def)

lemma add_flattening:
  assumes "contributes a" and "contributes b"
  shows "add_nested a b c = add [a, b, c] \<and> add_nested_calc a b c = add [a, b, c]"
proof (cases "addOrSubstract_handleItem Plus [] a")
  case (Inl e)
  then show ?thesis
    by (simp add: add_nested_def add_nested_calc_def add_def addOrSubstract_def)
next
  note a = assms(1) [unfolded contributes_def] and b = assms(2) [unfolded contributes_def]
  case da: (Inr da)
  show ?thesis
  proof (cases "addOrSubstract_handleItem Plus [] b")
    case (Inl e)
    then show ?thesis
      using da
      by (simp add: add_nested_def add_nested_calc_def add_def addOrSubstract_def
          addOrSubstract_handleItem_Plus [of da b])
  next
    case db: (Inr db)
    from a da obtain s1 x1 ta where da_eq: "da = (s1, x1) # ta"
      by (cases da) auto
    from b db have "db \<noteq> []"
      by auto
    then have rest: "ta @ db \<noteq> []"
      by simp
    have inner: "add [a, b] = Inr (create_calc (clacSum x1 (ta @ db)))"
      using da db da_eq
      by (simp add: add_def addOrSubstract_def
          addOrSubstract_handleItem_Plus [of "(s1, x1) # ta"])
    have flat: "add [a, b, c] =
        (case addOrSubstract_handleItem Plus [] c of
           Inl e \<Rightarrow> Inl e
         | Inr dc \<Rightarrow> Inr (create_calc (clacSum x1 (ta @ db @ dc))))"
      using da db da_eq
      by (simp add: add_def addOrSubstract_def
          addOrSubstract_handleItem_Plus [of "(s1, x1) # ta"]
          addOrSubstract_handleItem_Plus [of "(s1, x1) # ta @ db"] split: sum.splits)
    have nested: "add [Expr (create_calc (clacSum x1 (ta @ db))), c] =
        (case addOrSubstract_handleItem Plus [] c of
           Inl e \<Rightarrow> Inl e
         | Inr dc \<Rightarrow> Inr (create_calc (clacSum x1 (ta @ db @ dc))))"
      using rest
      by (simp add: add_def addOrSubstract_def handle_create_calc handle_built_sum
          addOrSubstract_handleItem_Plus [of "(Plus, x1) # ta @ db"] split: sum.splits)
    have nested_calc: "add [Expr (create_calc (create_calc (clacSum x1 (ta @ db)))), c] =
        (case addOrSubstract_handleItem Plus [] c of
           Inl e \<Rightarrow> Inl e
         | Inr dc \<Rightarrow> Inr (create_calc (clacSum x1 (ta @ db @ dc))))"
      using rest
      by (simp add: add_def addOrSubstract_def handle_create_calc handle_built_sum
          addOrSubstract_handleItem_Plus [of "(Plus, x1) # ta @ db"] split: sum.splits)
    show ?thesis
      by (simp add: add_nested_def add_nested_calc_def inner flat nested nested_calc)
  qed
qed

lemma contributes_cases:
  "contributes (Scalar s) = (\<not> falsy (Scalar s))"
  "\<not> contributes (Expr Null)"
  "contributes (Expr (Leaf kind v))"
  "kind \<noteq> ''calc'' \<Longrightarrow> contributes (Expr (Node kind vs))"
  "contributes (Expr (create_calc inner)) = contributes (Expr inner)"
  by (simp_all add: contributes_def create_calc_def split: list.splits ast.splits option.splits)

lemma handle_appended_as_is:
  "appended_as_is x \<Longrightarrow>
   addOrSubstract_handleItem op resolvedItems (Expr x) = Inr (resolvedItems @ [(op, x)])"
  by (cases x) simp_all

lemma appended_as_is_builder_value: "appended_as_is (builder_value s)"
  by (cases s)
    (simp_all add: calcValue_number_def calcValue_raw_def calcValue_percentage_def
      calcValue_dimension_def Let_def split: option.splits)

lemma add_terms:
  "add items =
     (case addOrSubstract_items Plus [] items of
        Inl e \<Rightarrow> Inl e
      | Inr [] \<Rightarrow> Inl Expected_at_least_one_item
      | Inr (p # ps) \<Rightarrow> Inr (create_calc (clacSum (snd p) ps)))"
  by (simp add: add_def addOrSubstract_def)

lemma add_after_terms:
  assumes "addOrSubstract_items Plus [] items = Inr terms"
  shows "add (items @ [c]) =
     (case addOrSubstract_handleItem Plus [] c of
        Inl e \<Rightarrow> Inl e
      | Inr dc \<Rightarrow>
          (case terms @ dc of
             [] \<Rightarrow> Inl Expected_at_least_one_item
           | p # ps \<Rightarrow> Inr (create_calc (clacSum (snd p) ps))))"
  using assms
  by (simp add: add_terms addOrSubstract_items_append
      addOrSubstract_handleItem_Plus [of terms c] split: sum.splits)

lemma add_flattening_terms:
  assumes terms: "addOrSubstract_items Plus [] [a, b] = Inr (p # ps)"
    and shape: "ps \<noteq> [] \<or> appended_as_is (snd p)"
  shows "add_nested a b c = add [a, b, c] \<and> add_nested_calc a b c = add [a, b, c]"
proof -
  let ?sum = "clacSum (snd p) ps"
  have inner: "add [a, b] = Inr (create_calc ?sum)"
    using terms by (simp add: add_terms)
  have handed_back: "addOrSubstract_handleItem Plus [] (Expr ?sum) = Inr ((Plus, snd p) # ps)"
  proof (cases "ps = []")
    case True
    with shape have "appended_as_is (snd p)" by simp
    then show ?thesis
      using True by (simp add: clacSum_def handle_appended_as_is)
  next
    case False
    then show ?thesis
      by (simp add: handle_built_sum)
  qed
  have flat: "add [a, b, c] =
     (case addOrSubstract_handleItem Plus [] c of
        Inl e \<Rightarrow> Inl e
      | Inr dc \<Rightarrow> Inr (create_calc (clacSum (snd p) (ps @ dc))))"
    using add_after_terms [OF terms, of c] by (simp split: sum.splits)
  have nested: "add [Expr (create_calc ?sum), c] =
     (case addOrSubstract_handleItem Plus [] c of
        Inl e \<Rightarrow> Inl e
      | Inr dc \<Rightarrow> Inr (create_calc (clacSum (snd p) (ps @ dc))))"
  proof -
    have "addOrSubstract_items Plus [] [Expr (create_calc ?sum)] = Inr ((Plus, snd p) # ps)"
      by (simp add: handle_create_calc handed_back)
    from add_after_terms [OF this, of c] show ?thesis
      by (simp split: sum.splits)
  qed
  have nested_calc: "add [Expr (create_calc (create_calc ?sum)), c] =
     (case addOrSubstract_handleItem Plus [] c of
        Inl e \<Rightarrow> Inl e
      | Inr dc \<Rightarrow> Inr (create_calc (clacSum (snd p) (ps @ dc))))"
  proof -
    have "addOrSubstract_items Plus [] [Expr (create_calc (create_calc ?sum))]
          = Inr ((Plus, snd p) # ps)"
      by (simp add: handle_create_calc handed_back)
    from add_after_terms [OF this, of c] show ?thesis
      by (simp split: sum.splits)
  qed
  show ?thesis
    by (simp add: add_nested_def add_nested_calc_def inner flat nested nested_calc)
qed

lemma add_flattening_error:
  assumes "addOrSubstract_items Plus [] [a, b] = Inl e"
  shows "add_nested a b c = Inl e \<and> add_nested_calc a b c = Inl e \<and> add [a, b, c] = Inl e"
proof -
  have "addOrSubstract_items Plus [] ([a, b] @ [c]) = Inl e"
    using assms by (simp only: addOrSubstract_items_append sum.case)
  then have "add [a, b, c] = Inl e"
    by (simp add: add_terms)
  moreover have "add [a, b] = Inl e"
    using assms by (simp add: add_terms)
  ultimately show ?thesis
    by (simp add: add_nested_def add_nested_calc_def)
qed

lemma add_flattening_nothing:
  assumes "addOrSubstract_items Plus [] [a, b] = Inr []"
    and "addOrSubstract_handleItem Plus [] c = Inr []"
  shows "add_nested a b c = Inl Expected_at_least_one_item
       \<and> add_nested_calc a b c = Inl Expected_at_least_one_item
       \<and> add [a, b, c] = Inl Expected_at_least_one_item"
proof -
  have "add [a, b, c] = Inl Expected_at_least_one_item"
    using add_after_terms [OF assms(1), of c] assms(2) by simp
  moreover have "add [a, b] = Inl Expected_at_least_one_item"
    using assms(1) by (simp add: add_terms)
  ultimately show ?thesis
    by (simp add: add_nested_def add_nested_calc_def)
qed

lemma add_flattening_first_as_is:
  assumes a: "addOrSubstract_handleItem Plus [] a = Inr [(Plus, x)]" and x: "appended_as_is x"
  shows "add_nested a b c = add [a, b, c] \<and> add_nested_calc a b c = add [a, b, c]"
proof (cases "addOrSubstract_handleItem Plus [] b")
  case (Inl e)
  with a have "addOrSubstract_items Plus [] [a, b] = Inl e"
    by (simp add: addOrSubstract_handleItem_Plus [of "[(Plus, x)]" b])
  from add_flattening_error [OF this, of c] show ?thesis
    by simp
next
  case (Inr db)
  with a have "addOrSubstract_items Plus [] [a, b] = Inr ((Plus, x) # db)"
    by (simp add: addOrSubstract_handleItem_Plus [of "[(Plus, x)]" b])
  moreover from x have "db \<noteq> [] \<or> appended_as_is (snd (Plus, x))"
    by simp
  ultimately show ?thesis
    by (rule add_flattening_terms)
qed

lemma add_flattening_second_as_is:
  assumes b: "addOrSubstract_handleItem Plus [] b = Inr [(Plus, x)]" and x: "appended_as_is x"
  shows "add_nested a b c = add [a, b, c] \<and> add_nested_calc a b c = add [a, b, c]"
proof (cases "addOrSubstract_handleItem Plus [] a")
  case (Inl e)
  then have "addOrSubstract_items Plus [] [a, b] = Inl e"
    by simp
  from add_flattening_error [OF this, of c] show ?thesis
    by simp
next
  case (Inr da)
  show ?thesis
  proof (cases da)
    case Nil
    with Inr b have "addOrSubstract_items Plus [] [a, b] = Inr [(Plus, x)]"
      by simp
    moreover from x have "[] \<noteq> [] \<or> appended_as_is (snd (Plus, x))"
      by simp
    ultimately show ?thesis
      by (rule add_flattening_terms)
  next
    case (Cons p ps)
    with Inr b have "addOrSubstract_items Plus [] [a, b] = Inr (p # (ps @ [(Plus, x)]))"
      by (simp add: addOrSubstract_handleItem_Plus [of "p # ps" b])
    moreover have "ps @ [(Plus, x)] \<noteq> [] \<or> appended_as_is (snd p)"
      by simp
    ultimately show ?thesis
      by (rule add_flattening_terms)
  qed
qed

lemma handle_scalar_as_is:
  "\<not> falsy (Scalar s) \<Longrightarrow>
   addOrSubstract_handleItem Plus [] (Scalar s) = Inr [(Plus, builder_value s)]"
  by simp

lemma addOrSubstract_result:
  assumes "addOrSubstract op items = Inr r"
  shows "\<exists>p ps. addOrSubstract_items op [] items = Inr (p # ps)
               \<and> r = create_calc (clacSum (snd p) ps)"
  using assms by (auto simp: addOrSubstract_def split: sum.splits list.splits)


text \<open>
  Claim C2, as amended. The calls \<open>add(add(a, b), c)\<close>, \<open>add(create.calc(add(a, b)), c)\<close>
  and \<open>add(a, b, c)\<close> return the same result, hence the same string, for all \<open>a\<close>,
  \<open>b\<close>, \<open>c\<close> for which handling \<open>a\<close> and \<open>b\<close> yields two terms or more, or one term that
  is not itself missing or a \<open>calc\<close> or \<open>calc-sum\<close> node. So it is when \<open>a\<close> and \<open>b\<close> both
  contribute, and when one of them is a number other than \<open>0\<close> and \<open>NaN\<close>, a string other
  than the empty one, or a node of a kind other than \<open>calc\<close> and \<open>calc-sum\<close>, whatever the
  other is. The three calls also agree when handling \<open>a\<close> and \<open>b\<close> is refused, and when
  \<open>a\<close>, \<open>b\<close> and \<open>c\<close> are all dropped. An operand that is a \<open>calc\<close> node is handled as
  its content is, and what a call returns is \<open>create.calc\<close>, applied once, of \<open>clacSum\<close>
  of the merged terms.
\<close>

theorem add_flattening_calc_unwrap:
  "(addOrSubstract_items Plus [] [a, b] = Inr (p # ps)
      \<and> (ps \<noteq> [] \<or> appended_as_is (snd p)) \<longrightarrow>
      add_nested a b c = add [a, b, c]
      \<and> add_nested_calc a b c = add [a, b, c]
      \<and> serialized (add_nested a b c) = serialized (add [a, b, c])
      \<and> serialized (add_nested_calc a b c) = serialized (add [a, b, c]))
   \<and> (addOrSubstract_items Plus [] [a, b] = Inl e \<longrightarrow>
        add_nested a b c = Inl e \<and> add_nested_calc a b c = Inl e \<and> add [a, b, c] = Inl e)
   \<and> (addOrSubstract_items Plus [] [a, b] = Inr []
        \<and> addOrSubstract_handleItem Plus [] c = Inr [] \<longrightarrow>
        add_nested a b c = Inl Expected_at_least_one_item
        \<and> add_nested_calc a b c = Inl Expected_at_least_one_item
        \<and> add [a, b, c] = Inl Expected_at_least_one_item)
   \<and> (contributes a \<and> contributes b \<longrightarrow>
        add_nested a b c = add [a, b, c] \<and> add_nested_calc a b c = add [a, b, c])
   \<and> (\<not> falsy (Scalar s) \<longrightarrow>
        add_nested (Scalar s) b c = add [Scalar s, b, c]
        \<and> add_nested_calc (Scalar s) b c = add [Scalar s, b, c]
        \<and> add_nested a (Scalar s) c = add [a, Scalar s, c]
        \<and> add_nested_calc a (Scalar s) c = add [a, Scalar s, c])
   \<and> (appended_as_is n \<longrightarrow>
        add_nested (Expr n) b c = add [Expr n, b, c]
        \<and> add_nested_calc (Expr n) b c = add [Expr n, b, c]
        \<and> add_nested a (Expr n) c = add [a, Expr n, c]
        \<and> add_nested_calc a (Expr n) c = add [a, Expr n, c])
   \<and> addOrSubstract_handleItem op resolvedItems (Expr (create_calc inner))
       = addOrSubstract_handleItem op resolvedItems (Expr inner)
   \<and> (addOrSubstract op items = Inr r \<longrightarrow>
        (\<exists>q qs. addOrSubstract_items op [] items = Inr (q # qs)
                \<and> r = create_calc (clacSum (snd q) qs)))"
proof (intro conjI impI)
  assume h: "addOrSubstract_items Plus [] [a, b] = Inr (p # ps)
      \<and> (ps \<noteq> [] \<or> appended_as_is (snd p))"
  from h have t: "addOrSubstract_items Plus [] [a, b] = Inr (p # ps)"
    by (rule conjunct1)
  from h have sh: "ps \<noteq> [] \<or> appended_as_is (snd p)"
    by (rule conjunct2)
  from add_flattening_terms [OF t sh, of c]
  show "add_nested a b c = add [a, b, c]" "add_nested_calc a b c = add [a, b, c]"
    "serialized (add_nested a b c) = serialized (add [a, b, c])"
    "serialized (add_nested_calc a b c) = serialized (add [a, b, c])"
    by simp_all
next
  assume "addOrSubstract_items Plus [] [a, b] = Inl e"
  from add_flattening_error [OF this, of c]
  show "add_nested a b c = Inl e" "add_nested_calc a b c = Inl e" "add [a, b, c] = Inl e"
    by simp_all
next
  assume h: "addOrSubstract_items Plus [] [a, b] = Inr []
        \<and> addOrSubstract_handleItem Plus [] c = Inr []"
  from add_flattening_nothing [OF conjunct1 [OF h] conjunct2 [OF h]]
  show "add_nested a b c = Inl Expected_at_least_one_item"
    "add_nested_calc a b c = Inl Expected_at_least_one_item"
    "add [a, b, c] = Inl Expected_at_least_one_item"
    by simp_all
next
  assume h: "contributes a \<and> contributes b"
  from add_flattening [OF conjunct1 [OF h] conjunct2 [OF h], of c]
  show "add_nested a b c = add [a, b, c]" "add_nested_calc a b c = add [a, b, c]"
    by simp_all
next
  assume s: "\<not> falsy (Scalar s)"
  have x: "appended_as_is (builder_value s)"
    by (rule appended_as_is_builder_value)
  from add_flattening_first_as_is [OF handle_scalar_as_is [OF s] x, of b c]
  show "add_nested (Scalar s) b c = add [Scalar s, b, c]"
    "add_nested_calc (Scalar s) b c = add [Scalar s, b, c]"
    by simp_all
  from add_flattening_second_as_is [OF handle_scalar_as_is [OF s] x, of a c]
  show "add_nested a (Scalar s) c = add [a, Scalar s, c]"
    "add_nested_calc a (Scalar s) c = add [a, Scalar s, c]"
    by simp_all
next
  assume n: "appended_as_is n"
  then have h: "addOrSubstract_handleItem Plus [] (Expr n) = Inr [(Plus, n)]"
    by (simp add: handle_appended_as_is)
  from add_flattening_first_as_is [OF h n, of b c]
  show "add_nested (Expr n) b c = add [Expr n, b, c]"
    "add_nested_calc (Expr n) b c = add [Expr n, b, c]"
    by simp_all
  from add_flattening_second_as_is [OF h n, of a c]
  show "add_nested a (Expr n) c = add [a, Expr n, c]"
    "add_nested_calc a (Expr n) c = add [a, Expr n, c]"
    by simp_all
next
  show "addOrSubstract_handleItem op resolvedItems (Expr (create_calc inner))
       = addOrSubstract_handleItem op resolvedItems (Expr inner)"
    by (rule handle_create_calc)
next
  assume "addOrSubstract op items = Inr r"
  then show "\<exists>q qs. addOrSubstract_items op [] items = Inr (q # qs)
                \<and> r = create_calc (clacSum (snd q) qs)"
    by (rule addOrSubstract_result)
qed


theorem add_flattening_calc_unwrap_witness:
  "addOrSubstract_items Plus [] [num 0, num 5] = Inr [(Plus, Leaf ''number'' ''5'')]
   \<and> appended_as_is (Leaf ''number'' ''5'')
   \<and> add_nested (num 0) (num 5) (num 1) = add [num 0, num 5, num 1]
   \<and> add_nested_calc (num 0) (num 5) (num 1) = add [num 0, num 5, num 1]
   \<and> serialized (add [num 0, num 5, num 1]) = Inr ''calc(5 + 1)''
   \<and> addOrSubstract_items Plus [] [Expr (Leaf ''calc'' []), num 1] = Inl Ill_typed
   \<and> add_nested (Expr (Leaf ''calc'' [])) (num 1) (num 2) = Inl Ill_typed
   \<and> add [Expr (Leaf ''calc'' []), num 1, num 2] = Inl Ill_typed
   \<and> addOrSubstract_items Plus [] [num 0, str []] = Inr []
   \<and> addOrSubstract_handleItem Plus [] (Expr Null) = Inr []
   \<and> add_nested (num 0) (str []) (Expr Null) = Inl Expected_at_least_one_item
   \<and> add [num 0, str [], Expr Null] = Inl Expected_at_least_one_item
   \<and> contributes (num 1) \<and> contributes (str ''2px'')
   \<and> add_nested (num 1) (str ''2px'') (num 3) = add [num 1, str ''2px'', num 3]
   \<and> add_nested_calc (num 1) (str ''2px'') (num 3) = add [num 1, str ''2px'', num 3]
   \<and> serialized (add [num 1, str ''2px'', num 3]) = Inr ''calc(1 + 2px + 3)''
   \<and> \<not> falsy (str ''5px'')
   \<and> add_nested (str ''5px'') (num 0) (num 1) = add [str ''5px'', num 0, num 1]
   \<and> appended_as_is (Leaf ''raw'' ''var(--x)'')
   \<and> add_nested (num 0) (Expr (Leaf ''raw'' ''var(--x)'')) (num 1)
       = add [num 0, Expr (Leaf ''raw'' ''var(--x)''), num 1]
   \<and> addOrSubstract Plus [num 1, num 2]
       = Inr (create_calc (clacSum (Leaf ''number'' ''1'') [(Plus, Leaf ''number'' ''2'')]))
   \<and> (\<exists>q qs. addOrSubstract_items Plus [] [num 1, num 2] = Inr (q # qs)
         \<and> create_calc (clacSum (Leaf ''number'' ''1'') [(Plus, Leaf ''number'' ''2'')])
           = create_calc (clacSum (snd q) qs))"
proof -
  note claim = add_flattening_calc_unwrap
  \<comment> \<open>two terms or more, or one term appended as it is\<close>
  have t1: "addOrSubstract_items Plus [] [num 0, num 5] = Inr [(Plus, Leaf ''number'' ''5'')]"
    by code_simp
  have x1: "appended_as_is (Leaf ''number'' ''5'')"
    by simp
  have h1: "addOrSubstract_items Plus [] [num 0, num 5] = Inr ((Plus, Leaf ''number'' ''5'') # [])
      \<and> ([] \<noteq> [] \<or> appended_as_is (snd (Plus, Leaf ''number'' ''5'')))"
    using t1 by simp
  have r1: "add_nested (num 0) (num 5) (num 1) = add [num 0, num 5, num 1]
      \<and> add_nested_calc (num 0) (num 5) (num 1) = add [num 0, num 5, num 1]
      \<and> serialized (add_nested (num 0) (num 5) (num 1)) = serialized (add [num 0, num 5, num 1])
      \<and> serialized (add_nested_calc (num 0) (num 5) (num 1))
          = serialized (add [num 0, num 5, num 1])"
    by (rule mp [OF conjunct1 [OF claim] h1])
  have s1: "serialized (add [num 0, num 5, num 1]) = Inr ''calc(5 + 1)''"
    by code_simp
  \<comment> \<open>refused\<close>
  have h2: "addOrSubstract_items Plus [] [Expr (Leaf ''calc'' []), num 1] = Inl Ill_typed"
    by simp
  have r2: "add_nested (Expr (Leaf ''calc'' [])) (num 1) (num 2) = Inl Ill_typed
      \<and> add_nested_calc (Expr (Leaf ''calc'' [])) (num 1) (num 2) = Inl Ill_typed
      \<and> add [Expr (Leaf ''calc'' []), num 1, num 2] = Inl Ill_typed"
    by (rule mp [OF conjunct1 [OF conjunct2 [OF claim]] h2])
  \<comment> \<open>all dropped\<close>
  have t3: "addOrSubstract_items Plus [] [num 0, str []] = Inr []"
    by simp
  have c3: "addOrSubstract_handleItem Plus [] (Expr Null) = Inr []"
    by simp
  have h3: "addOrSubstract_items Plus [] [num 0, str []] = Inr []
      \<and> addOrSubstract_handleItem Plus [] (Expr Null) = Inr []"
    using t3 c3 by (rule conjI)
  have r3: "add_nested (num 0) (str []) (Expr Null) = Inl Expected_at_least_one_item
      \<and> add_nested_calc (num 0) (str []) (Expr Null) = Inl Expected_at_least_one_item
      \<and> add [num 0, str [], Expr Null] = Inl Expected_at_least_one_item"
    by (rule mp [OF conjunct1 [OF conjunct2 [OF conjunct2 [OF claim]]] h3])
  \<comment> \<open>both contribute\<close>
  have h4: "contributes (num 1) \<and> contributes (str ''2px'')"
    by (simp add: contributes_cases)
  have r4: "add_nested (num 1) (str ''2px'') (num 3) = add [num 1, str ''2px'', num 3]
      \<and> add_nested_calc (num 1) (str ''2px'') (num 3) = add [num 1, str ''2px'', num 3]"
    by (rule mp [OF conjunct1 [OF conjunct2 [OF conjunct2 [OF conjunct2 [OF claim]]]] h4])
  have s4: "serialized (add [num 1, str ''2px'', num 3]) = Inr ''calc(1 + 2px + 3)''"
    by code_simp
  \<comment> \<open>one scalar that is not dropped\<close>
  have h5: "\<not> falsy (str ''5px'')"
    by simp
  have r5: "add_nested (str ''5px'') (num 0) (num 1) = add [str ''5px'', num 0, num 1]
      \<and> add_nested_calc (str ''5px'') (num 0) (num 1) = add [str ''5px'', num 0, num 1]
      \<and> add_nested (num 0) (str ''5px'') (num 1) = add [num 0, str ''5px'', num 1]
      \<and> add_nested_calc (num 0) (str ''5px'') (num 1) = add [num 0, str ''5px'', num 1]"
    by (rule mp [OF conjunct1 [OF conjunct2 [OF conjunct2 [OF conjunct2
          [OF conjunct2 [OF claim]]]]] h5])
  \<comment> \<open>one node appended as it is\<close>
  have h6: "appended_as_is (Leaf ''raw'' ''var(--x)'')"
    by simp
  have r6: "add_nested (Expr (Leaf ''raw'' ''var(--x)'')) (num 0) (num 1)
        = add [Expr (Leaf ''raw'' ''var(--x)''), num 0, num 1]
      \<and> add_nested_calc (Expr (Leaf ''raw'' ''var(--x)'')) (num 0) (num 1)
        = add [Expr (Leaf ''raw'' ''var(--x)''), num 0, num 1]
      \<and> add_nested (num 0) (Expr (Leaf ''raw'' ''var(--x)'')) (num 1)
        = add [num 0, Expr (Leaf ''raw'' ''var(--x)''), num 1]
      \<and> add_nested_calc (num 0) (Expr (Leaf ''raw'' ''var(--x)'')) (num 1)
        = add [num 0, Expr (Leaf ''raw'' ''var(--x)''), num 1]"
    by (rule mp [OF conjunct1 [OF conjunct2 [OF conjunct2 [OF conjunct2
          [OF conjunct2 [OF conjunct2 [OF claim]]]]]] h6])
  \<comment> \<open>the result of a call\<close>
  have h8: "addOrSubstract Plus [num 1, num 2]
       = Inr (create_calc (clacSum (Leaf ''number'' ''1'') [(Plus, Leaf ''number'' ''2'')]))"
    by code_simp
  have r8: "\<exists>q qs. addOrSubstract_items Plus [] [num 1, num 2] = Inr (q # qs)
         \<and> create_calc (clacSum (Leaf ''number'' ''1'') [(Plus, Leaf ''number'' ''2'')])
           = create_calc (clacSum (snd q) qs)"
    by (rule mp [OF conjunct2 [OF conjunct2 [OF conjunct2 [OF conjunct2
          [OF conjunct2 [OF conjunct2 [OF conjunct2 [OF claim]]]]]]] h8])
  show ?thesis
    apply (intro conjI)
    using t1 x1 r1 s1 h2 r2 t3 c3 r3 h4 r4 s4 h5 r5 h6 r6 h8 r8
    apply (simp_all only: simp_thms)
    done
qed

text \<open>
  Claim C2 as stated fails: \<open>add(add(0, 0), 1)\<close> raises the empty-input error where
  \<open>add(0, 0, 1)\<close> returns \<open>calc(1)\<close>; with an operand sum that has no pair and whose term
  is a \<open>calc\<close>, the nested call unwraps the term that the flat call keeps; and a \<open>calc\<close>
  that is a term of an operand sum is kept in the output.
\<close>

theorem add_flattening_counterexample:
  "add_nested (num 0) (num 0) (num 1) = Inl Expected_at_least_one_item
   \<and> add_nested_calc (num 0) (num 0) (num 1) = Inl Expected_at_least_one_item
   \<and> serialized (add [num 0, num 0, num 1]) = Inr ''calc(1)''
   \<and> serialized (add_nested
         (Expr (Node ''calc-sum''
            [create_calc (clacSum (Leaf ''number'' ''1'') [(Plus, Leaf ''number'' ''2'')]),
             Arr []]))
         (num 0) (num 3))
       = Inr ''calc(1 + 2 + 3)''
   \<and> serialized (add
         [Expr (Node ''calc-sum''
            [create_calc (clacSum (Leaf ''number'' ''1'') [(Plus, Leaf ''number'' ''2'')]),
             Arr []]),
          num 0, num 3])
       = Inr ''calc(calc(1 + 2) + 3)''
   \<and> serialized (add [Expr (clacSum (create_calc (calcValue_number (Num (Finite 1))))
                             [(Plus, calcValue_number (Num (Finite 2)))]), num 3])
       = Inr ''calc(calc(1) + 2 + 3)''"
  by code_simp

section \<open>The product merge\<close>

lemma multiplyOrDivide_items_append:
  "multiplyOrDivide_items op resolvedItems (xs @ ys) =
     (case multiplyOrDivide_items op resolvedItems xs of
        Inl e \<Rightarrow> Inl e
      | Inr resolvedItems' \<Rightarrow> multiplyOrDivide_items op resolvedItems' ys)"
  by (induction xs arbitrary: resolvedItems) (auto split: sum.splits)

lemma multiplyOrDivide_handleItem_append:
  "multiplyOrDivide_handleItem op resolvedItems item =
     (case multiplyOrDivide_handleItem op [] item of
        Inl e \<Rightarrow> Inl e
      | Inr contributed \<Rightarrow> Inr (resolvedItems @ contributed))"
proof (induction op resolvedItems item rule: multiplyOrDivide_handleItem.induct)
  case (3 op resolvedItems kind v)
  show ?case
  proof (cases "kind = ''calc''")
    case True
    then show ?thesis
      using 3 by (simp split: list.splits)
  next
    case False
    then show ?thesis
      by (simp split: list.splits ast.splits option.splits)
  qed
qed simp_all

lemma operator_pairs_product_tokens:
  "operator_pairs (map (\<lambda>(operator, v). Arr [Leaf ''token'' operator, v]) values) = Some values"
  by (induction "values") auto

lemma handle_calc_sum_grouped:
  "multiplyOrDivide_handleItem op resolvedItems (Expr (Node ''calc-sum'' v))
   = Inr (resolvedItems @ [(op, Node ''group''
            [Leaf ''token'' ''('', Node ''calc-sum'' v, Leaf ''token'' '')''])])"
  by (simp add: calcValue_group_def)

lemma multiply_sum_first:
  "multiplyOrDivide op [Expr (clacSum a [(Plus, b)]), c] =
     (case multiplyOrDivide_handleItem op [] c of
        Inl e \<Rightarrow> Inl e
      | Inr contributed \<Rightarrow>
          Inr (create_calc (calcProduct (calcValue_group (clacSum a [(Plus, b)])) contributed)))"
  by (simp add: multiplyOrDivide_def clacSum_def
      multiplyOrDivide_handleItem_append [of op "[x]" for x] split: sum.splits)

lemma tokens_group_sum:
  "leaf_tokens (calcValue_group (clacSum a [(Plus, b)]))
   = ''('' @ leaf_tokens a @ '' + '' @ leaf_tokens b @ '')''"
  by (simp add: tokens_calcValue_group tokens_clacSum)

text \<open>
  Claim C3, as amended. In \<open>multiply\<close> and \<open>divide\<close> an operand that is a \<open>calc-sum\<close> node
  is appended inside a \<open>group\<close> node, between parentheses, and never unwrapped; the product
  \<open>multiply(clacSum(a, ['+', b]), c)\<close> has the group of the sum as its first value whatever
  \<open>c\<close> is. It serializes to \<open>calc((a + b)*c)\<close>, with the text of \<open>c\<close> in the place of
  \<open>c\<close>, for all nodes \<open>a\<close>, \<open>b\<close> and every \<open>c\<close> that is a number other than \<open>0\<close> and
  \<open>NaN\<close>, a string other than the empty one, a \<open>calc-product\<close> node, or a node of a kind
  other than \<open>calc\<close>, \<open>calc-sum\<close> and \<open>calc-product\<close>.
\<close>

theorem product_of_sum_parenthesized:
  "multiplyOrDivide_handleItem op resolvedItems (Expr (Node ''calc-sum'' v))
     = Inr (resolvedItems @ [(op, Node ''group''
              [Leaf ''token'' ''('', Node ''calc-sum'' v, Leaf ''token'' '')''])])
   \<and> multiply [Expr (clacSum a [(Plus, b)]), c] =
       (case multiplyOrDivide_handleItem ''*'' [] c of
          Inl e \<Rightarrow> Inl e
        | Inr contributed \<Rightarrow>
            Inr (create_calc
                   (calcProduct (calcValue_group (clacSum a [(Plus, b)])) contributed)))
   \<and> serialize (calcValue_group (clacSum a [(Plus, b)]))
       = ''('' @ serialize a @ '' + '' @ serialize b @ '')''
   \<and> (\<not> falsy (Scalar s) \<longrightarrow>
        serialized (multiply [Expr (clacSum a [(Plus, b)]), Scalar s])
        = Inr (''calc(('' @ serialize a @ '' + '' @ serialize b @ '')*''
               @ serialize (builder_value s) @ '')''))
   \<and> (kind \<notin> {''calc'', ''calc-sum'', ''calc-product''} \<longrightarrow>
        serialized (multiply [Expr (clacSum a [(Plus, b)]), Expr (Leaf kind text)])
        = Inr (''calc(('' @ serialize a @ '' + '' @ serialize b @ '')*''
               @ serialize (Leaf kind text) @ '')'')
        \<and> serialized (multiply [Expr (clacSum a [(Plus, b)]), Expr (Node kind vs)])
        = Inr (''calc(('' @ serialize a @ '' + '' @ serialize b @ '')*''
               @ serialize (Node kind vs) @ '')''))
   \<and> serialized (multiply [Expr (clacSum a [(Plus, b)]),
         Expr (Node ''calc-product''
                 [first, Arr (map (\<lambda>(operator, v). Arr [Leaf ''token'' operator, v]) values)])])
       = Inr (''calc(('' @ serialize a @ '' + '' @ serialize b @ '')*''
              @ serialize (Node ''calc-product''
                 [first, Arr (map (\<lambda>(operator, v). Arr [Leaf ''token'' operator, v]) values)])
              @ '')'')"
proof (intro conjI impI)
  show "multiplyOrDivide_handleItem op resolvedItems (Expr (Node ''calc-sum'' v))
     = Inr (resolvedItems @ [(op, Node ''group''
              [Leaf ''token'' ''('', Node ''calc-sum'' v, Leaf ''token'' '')''])])"
    by (rule handle_calc_sum_grouped)
  show "multiply [Expr (clacSum a [(Plus, b)]), c] =
       (case multiplyOrDivide_handleItem ''*'' [] c of
          Inl e \<Rightarrow> Inl e
        | Inr contributed \<Rightarrow>
            Inr (create_calc
                   (calcProduct (calcValue_group (clacSum a [(Plus, b)])) contributed)))"
    unfolding multiply_def by (rule multiply_sum_first)
  show "serialize (calcValue_group (clacSum a [(Plus, b)]))
       = ''('' @ serialize a @ '' + '' @ serialize b @ '')''"
    by (simp only: serialize_tokens tokens_group_sum)
next
  assume "\<not> falsy (Scalar s)"
  then show "serialized (multiply [Expr (clacSum a [(Plus, b)]), Scalar s])
        = Inr (''calc(('' @ serialize a @ '' + '' @ serialize b @ '')*''
               @ serialize (builder_value s) @ '')'')"
    by (simp add: multiply_def multiply_sum_first serialized_def serialize_tokens
        tokens_create_calc tokens_calcProduct tokens_group_sum)
next
  assume k: "kind \<notin> {''calc'', ''calc-sum'', ''calc-product''}"
  then show "serialized (multiply [Expr (clacSum a [(Plus, b)]), Expr (Leaf kind text)])
        = Inr (''calc(('' @ serialize a @ '' + '' @ serialize b @ '')*''
               @ serialize (Leaf kind text) @ '')'')"
    by (simp add: multiply_def multiply_sum_first serialized_def serialize_tokens
        tokens_create_calc tokens_calcProduct tokens_group_sum)
  from k show "serialized (multiply [Expr (clacSum a [(Plus, b)]), Expr (Node kind vs)])
        = Inr (''calc(('' @ serialize a @ '' + '' @ serialize b @ '')*''
               @ serialize (Node kind vs) @ '')'')"
    by (simp add: multiply_def multiply_sum_first serialized_def serialize_tokens
        tokens_create_calc tokens_calcProduct tokens_group_sum)
next
  let ?p = "Node ''calc-product''
                 [first, Arr (map (\<lambda>(operator, v). Arr [Leaf ''token'' operator, v]) values)]"
  have h: "multiplyOrDivide_handleItem ''*'' [] (Expr ?p) = Inr ((''*'', first) # values)"
    using operator_pairs_product_tokens [of "values"] by simp
  have t: "leaf_tokens ?p
      = leaf_tokens first @ concat (map (\<lambda>(operator, v). operator @ leaf_tokens v) values)"
  proof -
    have "concat (map (leaf_tokens \<circ> (\<lambda>(operator, v). Arr [Leaf ''token'' operator, v])) ps)
          = concat (map (\<lambda>(operator, v). operator @ leaf_tokens v) ps)" for ps
      by (induction ps) auto
    then show ?thesis by simp
  qed
  show "serialized (multiply [Expr (clacSum a [(Plus, b)]), Expr ?p])
       = Inr (''calc(('' @ serialize a @ '' + '' @ serialize b @ '')*'' @ serialize ?p @ '')'')"
    by (simp only: multiply_def multiply_sum_first h sum.case serialized_def serialize_tokens
        tokens_create_calc tokens_calcProduct tokens_group_sum t) simp
qed

theorem product_of_sum_parenthesized_witness:
  "\<not> falsy (Scalar (Num (Finite 2)))
   \<and> ''raw'' \<notin> {''calc'', ''calc-sum'', ''calc-product''}
   \<and> serialized (multiply [Expr (clacSum (Leaf ''number'' ''10'') [(Plus, Leaf ''number'' ''2'')]),
                            num 2])
       = Inr ''calc((10 + 2)*2)''
   \<and> serialized (multiply [Expr (clacSum (Leaf ''number'' ''10'') [(Plus, Leaf ''number'' ''2'')]),
                            Expr (Leaf ''raw'' ''var(--x)'')])
       = Inr ''calc((10 + 2)*var(--x))''"
proof -
  have f: "\<not> falsy (Scalar (Num (Finite 2)))"
    by simp
  have k: "''raw'' \<notin> {''calc'', ''calc-sum'', ''calc-product''}"
    by simp
  have v: "serialize (builder_value (Num (Finite 2))) = ''2''"
    by code_simp
  have scalar: "\<not> falsy (Scalar (Num (Finite 2))) \<longrightarrow>
        serialized (multiply [Expr (clacSum (Leaf ''number'' ''10'') [(Plus, Leaf ''number'' ''2'')]),
                              Scalar (Num (Finite 2))])
        = Inr (''calc(('' @ serialize (Leaf ''number'' ''10'') @ '' + ''
               @ serialize (Leaf ''number'' ''2'') @ '')*''
               @ serialize (builder_value (Num (Finite 2))) @ '')'')"
    by (rule conjunct1 [OF conjunct2 [OF conjunct2 [OF conjunct2
          [OF product_of_sum_parenthesized]]]])
  have leaf: "''raw'' \<notin> {''calc'', ''calc-sum'', ''calc-product''} \<longrightarrow>
        serialized (multiply [Expr (clacSum (Leaf ''number'' ''10'') [(Plus, Leaf ''number'' ''2'')]),
                              Expr (Leaf ''raw'' ''var(--x)'')])
        = Inr (''calc(('' @ serialize (Leaf ''number'' ''10'') @ '' + ''
               @ serialize (Leaf ''number'' ''2'') @ '')*''
               @ serialize (Leaf ''raw'' ''var(--x)'') @ '')'')
        \<and> serialized (multiply [Expr (clacSum (Leaf ''number'' ''10'') [(Plus, Leaf ''number'' ''2'')]),
                              Expr (Node ''raw'' [])])
        = Inr (''calc(('' @ serialize (Leaf ''number'' ''10'') @ '' + ''
               @ serialize (Leaf ''number'' ''2'') @ '')*''
               @ serialize (Node ''raw'' []) @ '')'')"
    by (rule conjunct1 [OF conjunct2 [OF conjunct2 [OF conjunct2 [OF conjunct2
          [OF product_of_sum_parenthesized]]]]])
  from scalar f v
  have 1: "serialized (multiply [Expr (clacSum (Leaf ''number'' ''10'') [(Plus, Leaf ''number'' ''2'')]),
                                 num 2])
           = Inr ''calc((10 + 2)*2)''"
    by (simp add: serialize_tokens)
  from leaf k
  have 2: "serialized (multiply [Expr (clacSum (Leaf ''number'' ''10'') [(Plus, Leaf ''number'' ''2'')]),
                                 Expr (Leaf ''raw'' ''var(--x)'')])
           = Inr ''calc((10 + 2)*var(--x))''"
    by (simp add: serialize_tokens)
  from f k 1 2 show ?thesis
    by (intro conjI)
qed

text \<open>
  Claim C3 as stated fails where \<open>c\<close> is a \<open>calc\<close> node, whose content is multiplied in
  its place, where \<open>c\<close> is a \<open>calc-sum\<close> node, which is parenthesized, and where \<open>c\<close> is
  the number \<open>0\<close>, which is dropped.
\<close>

theorem product_of_sum_counterexample:
  "serialized (multiply [Expr (clacSum (Leaf ''number'' ''1'') [(Plus, Leaf ''number'' ''2'')]),
                         Expr (create_calc (Leaf ''number'' ''3''))])
     = Inr ''calc((1 + 2)*3)''
   \<and> ''calc((1 + 2)*3)''
       \<noteq> ''calc(('' @ serialize (Leaf ''number'' ''1'') @ '' + '' @ serialize (Leaf ''number'' ''2'')
          @ '')*'' @ serialize (create_calc (Leaf ''number'' ''3'')) @ '')''
   \<and> serialized (multiply [Expr (clacSum (Leaf ''number'' ''1'') [(Plus, Leaf ''number'' ''2'')]),
                         Expr (clacSum (Leaf ''number'' ''3'') [(Plus, Leaf ''number'' ''4'')])])
     = Inr ''calc((1 + 2)*(3 + 4))''
   \<and> serialized (multiply [Expr (clacSum (Leaf ''number'' ''1'') [(Plus, Leaf ''number'' ''2'')]),
                         num 0])
     = Inr ''calc((1 + 2))''"
  by code_simp

section \<open>Operands that are dropped\<close>

text \<open>
  Claim C10. In \<open>add\<close>, \<open>substract\<close>, \<open>multiply\<close> and \<open>divide\<close> an operand that is the
  number \<open>0\<close> or the empty string is dropped as \<open>null\<close> is: handling it leaves the
  resolved items as they are, and the call returns what it returns without the operand. So
  \<open>add(1, 0, 2)\<close> serializes to \<open>calc(1 + 2)\<close> and \<open>add(0)\<close> raises the error. \<open>round\<close>
  with the interval \<open>0\<close> or the empty string returns what it returns with no interval: a
  \<open>round\<close> node whose interval is missing.
\<close>

theorem falsy_operands_absent:
  "addOrSubstract_handleItem sg resolvedSum (num 0) = Inr resolvedSum
   \<and> addOrSubstract_handleItem sg resolvedSum (str []) = Inr resolvedSum
   \<and> addOrSubstract_handleItem sg resolvedSum (Expr Null) = Inr resolvedSum
   \<and> multiplyOrDivide_handleItem op resolvedProduct (num 0) = Inr resolvedProduct
   \<and> multiplyOrDivide_handleItem op resolvedProduct (str []) = Inr resolvedProduct
   \<and> multiplyOrDivide_handleItem op resolvedProduct (Expr Null) = Inr resolvedProduct
   \<and> addOrSubstract sg (before @ num 0 # after) = addOrSubstract sg (before @ after)
   \<and> addOrSubstract sg (before @ str [] # after) = addOrSubstract sg (before @ after)
   \<and> addOrSubstract sg (before @ Expr Null # after) = addOrSubstract sg (before @ after)
   \<and> multiplyOrDivide op (before @ num 0 # after) = multiplyOrDivide op (before @ after)
   \<and> multiplyOrDivide op (before @ str [] # after) = multiplyOrDivide op (before @ after)
   \<and> multiplyOrDivide op (before @ Expr Null # after) = multiplyOrDivide op (before @ after)
   \<and> serialized (add [num 1, num 0, num 2]) = Inr ''calc(1 + 2)''
   \<and> add [num 0] = Inl Expected_at_least_one_item
   \<and> builder_round strategy v (num 0) = builder_round strategy v (Expr Null)
   \<and> builder_round strategy v (str []) = builder_round strategy v (Expr Null)
   \<and> builder_round strategy v (Expr Null) =
       (if v = Expr Null then Inl Expected_at_least_one_item
        else case anyExprToCalcSum v of
               Inl e \<Rightarrow> Inl e
             | Inr v' \<Rightarrow>
                 Inr (Node ''round''
                        [Leaf ''function'' ''round'',
                         Leaf ''token'' ''('',
                         (case strategy of
                            Some s \<Rightarrow> Arr [Leaf ''rounding-strategy'' (roundStrategy_string s),
                                           Leaf ''token'' '','']
                          | None \<Rightarrow> Null),
                         v',
                         Null,
                         Leaf ''token'' '')'']))
   \<and> serialized (builder_round None (str ''10px'') (num 0)) = Inr ''round(10px)''"
proof (intro conjI)
  show "serialized (add [num 1, num 0, num 2]) = Inr ''calc(1 + 2)''"
    by code_simp
  show "add [num 0] = Inl Expected_at_least_one_item"
    by (simp add: add_def addOrSubstract_def)
  show "serialized (builder_round None (str ''10px'') (num 0)) = Inr ''round(10px)''"
    by code_simp
  show "builder_round strategy v (Expr Null) =
       (if v = Expr Null then Inl Expected_at_least_one_item
        else case anyExprToCalcSum v of
               Inl e \<Rightarrow> Inl e
             | Inr v' \<Rightarrow>
                 Inr (Node ''round''
                        [Leaf ''function'' ''round'',
                         Leaf ''token'' ''('',
                         (case strategy of
                            Some s \<Rightarrow> Arr [Leaf ''rounding-strategy'' (roundStrategy_string s),
                                           Leaf ''token'' '','']
                          | None \<Rightarrow> Null),
                         v',
                         Null,
                         Leaf ''token'' '')'']))"
    by (simp add: builder_round_def create_round_def split: sum.splits)
qed (simp_all add: addOrSubstract_def multiplyOrDivide_def addOrSubstract_items_append
      multiplyOrDivide_items_append builder_round_def split: sum.splits)

lemma falsy_items_sum:
  "\<forall>item \<in> set items. falsy item \<Longrightarrow>
   addOrSubstract_items op resolvedItems items = Inr resolvedItems"
proof (induction items)
  case Nil
  show ?case by simp
next
  case (Cons item items)
  then have "falsy item" by simp
  then have "addOrSubstract_handleItem op resolvedItems item = Inr resolvedItems"
    by (cases item) auto
  with Cons show ?case by simp
qed

lemma falsy_items_product:
  "\<forall>item \<in> set items. falsy item \<Longrightarrow>
   multiplyOrDivide_items op resolvedItems items = Inr resolvedItems"
proof (induction items)
  case Nil
  show ?case by simp
next
  case (Cons item items)
  then have "falsy item" by simp
  then have "multiplyOrDivide_handleItem op resolvedItems item = Inr resolvedItems"
    by (cases item) auto
  with Cons show ?case by simp
qed

lemma falsy_items_resolve:
  "\<forall>item \<in> set items. falsy item \<Longrightarrow>
   resolveCalcSums_items resolvedItems items = Inr resolvedItems"
proof (induction items)
  case Nil
  show ?case by simp
next
  case (Cons item items)
  then have "falsy item" by simp
  then have "resolveCalcSums_handleItem resolvedItems item = Inr resolvedItems"
    by (cases item) auto
  with Cons show ?case by simp
qed

lemma falsy_items_raise:
  assumes "\<forall>item \<in> set items. falsy item"
  shows "add items = Inl Expected_at_least_one_item"
    and "substract items = Inl Expected_at_least_one_item"
    and "multiply items = Inl Expected_at_least_one_item"
    and "divide items = Inl Expected_at_least_one_item"
    and "builder_min items = Inl Expected_at_least_one_item"
    and "builder_max items = Inl Expected_at_least_one_item"
  using assms
  by (simp_all add: add_def substract_def multiply_def divide_def addOrSubstract_def
      multiplyOrDivide_def builder_min_def builder_max_def resolveCalcSums_def
      falsy_items_sum falsy_items_product falsy_items_resolve)

text \<open>
  Claim C5, at the item list \<open>[0]\<close> (and at \<open>[""]\<close>): one operand that is not \<open>null\<close> is
  present, and each of the six functions raises the empty-input error.
\<close>

theorem empty_input_error_on_zero:
  "add [num 0] = Inl Expected_at_least_one_item
   \<and> substract [num 0] = Inl Expected_at_least_one_item
   \<and> multiply [num 0] = Inl Expected_at_least_one_item
   \<and> divide [num 0] = Inl Expected_at_least_one_item
   \<and> builder_min [num 0] = Inl Expected_at_least_one_item
   \<and> builder_max [num 0] = Inl Expected_at_least_one_item
   \<and> add [str []] = Inl Expected_at_least_one_item
   \<and> builder_min [str []] = Inl Expected_at_least_one_item
   \<and> serialized (builder_clamp (num 0) (num 0) (num 0)) = Inr ''clamp(0,0,0)''
   \<and> serialized (builder_round None (num 0) (Expr Null)) = Inr ''round(0)''"
  by (simp add: add_def substract_def multiply_def divide_def addOrSubstract_def
      multiplyOrDivide_def builder_min_def builder_max_def resolveCalcSums_def
      serialized_def builder_clamp_def noneOrCalcSum_def builder_round_def
      serialize_tokens tokens_create_clamp create_round_def calcValue_number_def
      decimal.simps digit_char_def)

end
